theory Spec2Isabelle
  imports Main "HOL-Library.AList"
begin

section \<open>Exceptions\<close>

text \<open>
  The Python exceptions the modelled code raises or catches. All of them are subclasses of
  \<open>Exception\<close> (\<open>bdb.BdbQuit\<close> included), so an \<open>except Exception\<close> clause
  catches every value of this type. A computation that may raise returns \<open>exn + 'a\<close>;
  one that also mutates state returns the state it reached together with \<open>exn option\<close>,
  because a Python exception does not undo the mutations made before it.
\<close>

datatype exn =
    RuntimeError string
  | OSError string
  | TypeError string
  | AttributeError string
  | BdbQuit
  | PyException string

section \<open>Settings (\<open>SETTINGS\<close>, \<open>save_settings\<close>)\<close>

text \<open>
  \<open>SETTINGS\<close> is the module-level dictionary; \<open>settings_file\<close> is the content of
  \<open>settings.json\<close> (\<open>None\<close> when the file holds no complete document) and
  \<open>writable\<close> says whether \<open>os.makedirs\<close>, \<open>open(..., 'w')\<close> and
  \<open>json.dump\<close> succeed.
\<close>

record 'v store =
  SETTINGS :: "string \<rightharpoonup> 'v"
  settings_file :: "(string \<rightharpoonup> 'v) option"
  writable :: bool

definition write_settings_file :: "(string \<rightharpoonup> 'v) \<Rightarrow> ('v, 'x) store_scheme \<Rightarrow> exn + ('v, 'x) store_scheme" where
  "write_settings_file od st =
     (if writable st then Inr (st\<lparr>settings_file := Some od\<rparr>)
      else Inl (OSError ''cannot write settings''))"

definition save_settings :: "(string \<rightharpoonup> 'v) \<Rightarrow> ('v, 'x) store_scheme \<Rightarrow> ('v, 'x) store_scheme" where
  "save_settings d st =
     (let od = SETTINGS st;
          od = (if d = Map.empty then od else od ++ d)
      in (case write_settings_file od st of
            Inr st' \<Rightarrow> st'\<lparr>SETTINGS := od\<rparr>
          | Inl e \<Rightarrow> st))"

text \<open>
  The JSON values the modelled code reads back from the settings: \<open>null\<close>, a number, a
  string, and a list of names (the value \<open>enabled_extensions\<close> is written with).
\<close>

datatype jvalue = JNull | JInt int | JStr string | JNames "string list"

section \<open>Event bus (\<open>EVENT_LISTENERS\<close>)\<close>

text \<open>
  A callback is identified by \<open>cb_id\<close>; \<open>cb_raises\<close> is the message of the exception it
  raises when called, if any. A listener is the tuple \<open>(callback, owner, threaded)\<close>.
\<close>

datatype callback = Callback (cb_id: nat) (cb_raises: "string option")

type_synonym listener = "callback \<times> string option \<times> bool"

text \<open>
  How a callback left \<open>emit_event\<close>: handed to a new thread, queued on the owner thread
  with \<open>root.after\<close>, or called on the spot.
\<close>

datatype dispatch = OnThread callback | OnOwnerQueue callback | Direct callback

fun target :: "dispatch \<Rightarrow> callback" where
  "target (OnThread c) = c"
| "target (OnOwnerQueue c) = c"
| "target (Direct c) = c"

text \<open>
  The module-level state: the settings, the listener table, the lines written by \<open>log\<close>,
  and (as a record of what left \<open>emit_event\<close>) the dispatches made so far.
  \<open>thread_ok\<close> and \<open>after_ok\<close> say whether starting a thread and \<open>root.after\<close>
  succeed.
\<close>

record bus = "jvalue store" +
  EVENT_LISTENERS :: "string \<rightharpoonup> listener list"
  dispatched :: "dispatch list"
  LOG :: "string list"
  thread_ok :: bool
  after_ok :: bool

definition add_event_listener :: "string \<Rightarrow> callback \<Rightarrow> string option \<Rightarrow> bool \<Rightarrow> 'x bus_scheme \<Rightarrow> 'x bus_scheme" where
  "add_event_listener event cb owner threaded b =
     b\<lparr>EVENT_LISTENERS := (EVENT_LISTENERS b)(event \<mapsto>
          (case EVENT_LISTENERS b event of None \<Rightarrow> [] | Some lst \<Rightarrow> lst) @ [(cb, owner, threaded)])\<rparr>"

text \<open>Python truthiness of the two optional arguments: a function object is true, a string is
  true unless empty, \<open>None\<close> is false.\<close>

definition truthy_cb :: "callback option \<Rightarrow> bool" where
  "truthy_cb c = (c \<noteq> None)"

definition truthy_owner :: "string option \<Rightarrow> bool" where
  "truthy_owner ow = (case ow of None \<Rightarrow> False | Some s \<Rightarrow> s \<noteq> [])"

text \<open>The body of the \<open>for\<close> loop of \<open>remove_event_listener\<close>: whether the entry is
  appended to \<open>new\<close>.\<close>

definition kept :: "callback option \<Rightarrow> string option \<Rightarrow> listener \<Rightarrow> bool" where
  "kept callback owner l =
     (case l of (cb, own, thd) \<Rightarrow>
        if truthy_cb callback \<and> Some cb \<noteq> callback then True
        else if truthy_owner owner \<and> own \<noteq> owner then True
        else if \<not> truthy_cb callback \<and> \<not> truthy_owner owner then True
        else False)"

definition remove_event_listener :: "string \<Rightarrow> callback option \<Rightarrow> string option \<Rightarrow> 'x bus_scheme \<Rightarrow> 'x bus_scheme" where
  "remove_event_listener event callback owner b =
     (case EVENT_LISTENERS b event of
        None \<Rightarrow> b
      | Some lst \<Rightarrow>
          if lst = [] then b
          else b\<lparr>EVENT_LISTENERS := (EVENT_LISTENERS b)(event \<mapsto> filter (kept callback owner) lst)\<rparr>)"

text \<open>\<open>log\<close> never raises: its body is one \<open>try\<close> whose handler prints to stderr.\<close>

definition log :: "string \<Rightarrow> 'x bus_scheme \<Rightarrow> 'x bus_scheme" where
  "log line b = b\<lparr>LOG := LOG b @ [line]\<rparr>"

text \<open>Calling the callback object itself.\<close>

definition call :: "callback \<Rightarrow> exn + unit" where
  "call cb = (case cb_raises cb of None \<Rightarrow> Inr () | Some m \<Rightarrow> Inl (PyException m))"

definition safe_call :: "callback \<Rightarrow> 'x bus_scheme \<Rightarrow> exn + 'x bus_scheme" where
  "safe_call cb b =
     (case call cb of
        Inr u \<Rightarrow> Inr b
      | Inl e \<Rightarrow> Inr (log (''Extension callback error: '' @ (case e of PyException m \<Rightarrow> m | _ \<Rightarrow> [])) b))"

text \<open>\<open>threading.Thread(...).start()\<close> and \<open>root.after(0, ...)\<close>: each either takes the
  work or raises.\<close>

definition start_thread :: "callback \<Rightarrow> 'x bus_scheme \<Rightarrow> exn + 'x bus_scheme" where
  "start_thread cb b =
     (if thread_ok b then Inr (b\<lparr>dispatched := dispatched b @ [OnThread cb]\<rparr>)
      else Inl (RuntimeError ''can't start new thread''))"

definition root_after :: "callback \<Rightarrow> 'x bus_scheme \<Rightarrow> exn + 'x bus_scheme" where
  "root_after cb b =
     (if after_ok b then Inr (b\<lparr>dispatched := dispatched b @ [OnOwnerQueue cb]\<rparr>)
      else Inl (RuntimeError ''main thread is not in main loop''))"

text \<open>One iteration of the loop of \<open>emit_event\<close>, with its two nested \<open>try\<close> blocks.\<close>

definition emit_one :: "listener \<Rightarrow> 'x bus_scheme \<Rightarrow> exn + 'x bus_scheme" where
  "emit_one l b =
     (case l of (cb, owner, threaded) \<Rightarrow>
        (case (if threaded then start_thread cb b
               else (case root_after cb b of
                       Inr b' \<Rightarrow> Inr b'
                     | Inl e \<Rightarrow> safe_call cb (b\<lparr>dispatched := dispatched b @ [Direct cb]\<rparr>)))
         of Inr b' \<Rightarrow> Inr b'
          | Inl e \<Rightarrow> Inr b))"

fun emit_loop :: "listener list \<Rightarrow> 'x bus_scheme \<Rightarrow> exn + 'x bus_scheme" where
  "emit_loop [] b = Inr b"
| "emit_loop (l # ls) b =
     (case emit_one l b of Inl e \<Rightarrow> Inl e | Inr b' \<Rightarrow> emit_loop ls b')"

text \<open>\<open>EVENT_LISTENERS.get(event, []) or []\<close>\<close>

definition listeners_of :: "'x bus_scheme \<Rightarrow> string \<Rightarrow> listener list" where
  "listeners_of b event = (case EVENT_LISTENERS b event of None \<Rightarrow> [] | Some lst \<Rightarrow> lst)"

definition emit_event :: "string \<Rightarrow> 'x bus_scheme \<Rightarrow> exn + 'x bus_scheme" where
  "emit_event event b = emit_loop (listeners_of b event) b"

text \<open>Whether the dispatch mechanism of a listener takes work in this environment.\<close>

definition reachable :: "'x bus_scheme \<Rightarrow> listener \<Rightarrow> bool" where
  "reachable b l = (case l of (cb, owner, threaded) \<Rightarrow> if threaded then thread_ok b else True)"

section \<open>Extension manager (\<open>ExtensionManager\<close>, \<open>ExtensionAPI\<close>)\<close>

text \<open>
  A registered resource: \<open>has_destroy\<close> is \<open>hasattr(r, 'destroy') and callable(r.destroy)\<close>,
  \<open>is_callable\<close> is \<open>callable(r)\<close>, and \<open>dispose_raises\<close> says whether the call that
  disposes of it raises.
\<close>

datatype resource = Resource (rid: nat) (has_destroy: bool) (is_callable: bool) (dispose_raises: bool)

text \<open>What \<open>_cleanup_resources\<close> invoked, in order.\<close>

datatype disposal = Destroyed resource | Called resource

text \<open>
  A hook (\<open>setup(api)\<close> or \<open>teardown(api)\<close>) is the sequence of calls it makes on the
  facade it is given, ended by the exception it raises, if any: \<open>api.register_resource(r)\<close>,
  \<open>api.add_command(label, cb)\<close> (also reached through \<open>api.get_menu().add_command\<close>),
  and \<open>raise\<close>. A module has each hook or lacks it.
\<close>

datatype api_call = RegisterResource resource | AddCommand string callback | Raise exn

type_synonym hook = "api_call list"

record ext_module =
  setup_hook :: "hook option"
  teardown_hook :: "hook option"

text \<open>The dictionary \<open>info[name]\<close>; a key the dictionary lacks reads as \<open>None\<close>
  (\<open>False\<close> for \<open>enabled\<close>), as \<open>meta.get\<close> does.\<close>

record ext_info =
  path :: "string option"
  enabled :: bool
  dir :: "string option"
  readme :: "string option"
  error :: "string option"

text \<open>
  The manager's fields on top of the module-level state. \<open>info\<close> keeps the insertion order
  of the dictionary, which \<open>load_all\<close> iterates. \<open>disposed\<close> records the disposers
  invoked, \<open>destroyed_menus\<close> the submenus destroyed and \<open>menu_builds\<close> the number of calls
  of \<open>build_extensions_menu\<close>, whose widget is a function of \<open>info\<close> and \<open>menu_items\<close>.
\<close>

record world = bus +
  loaded :: "string \<rightharpoonup> ext_module option"
  info :: "(string \<times> ext_info) list"
  submenus :: "string set"
  resources :: "string \<rightharpoonup> resource list"
  menu_items :: "string \<rightharpoonup> (string \<times> callback) list"
  disposed :: "disposal list"
  destroyed_menus :: "string list"
  menu_builds :: nat

definition register_resource :: "string \<Rightarrow> resource \<Rightarrow> world \<Rightarrow> world" where
  "register_resource name r w =
     w\<lparr>resources := (resources w)(name \<mapsto>
          (case resources w name of None \<Rightarrow> [] | Some rs \<Rightarrow> rs) @ [r])\<rparr>"

definition register_menu_item :: "string \<Rightarrow> string \<Rightarrow> callback \<Rightarrow> world \<Rightarrow> world" where
  "register_menu_item name label cb w =
     w\<lparr>menu_items := (menu_items w)(name \<mapsto>
          (case menu_items w name of None \<Rightarrow> [] | Some ms \<Rightarrow> ms) @ [(label, cb)])\<rparr>"

text \<open>Running a hook with the facade \<open>ExtensionAPI(self, name)\<close>: the state reached and the
  exception that ended it, if any.\<close>

fun run_hook :: "string \<Rightarrow> hook \<Rightarrow> world \<Rightarrow> exn option \<times> world" where
  "run_hook name [] w = (None, w)"
| "run_hook name (RegisterResource r # cs) w = run_hook name cs (register_resource name r w)"
| "run_hook name (AddCommand label cb # cs) w = run_hook name cs (register_menu_item name label cb w)"
| "run_hook name (Raise e # cs) w = (Some e, w)"

definition build_extensions_menu :: "world \<Rightarrow> world" where
  "build_extensions_menu w = w\<lparr>menu_builds := Suc (menu_builds w)\<rparr>"

text \<open>\<open>self.info.setdefault(name, {})['enabled'] = v\<close>\<close>

definition empty_info :: ext_info where
  "empty_info = \<lparr>path = None, enabled = False, dir = None, readme = None, error = None\<rparr>"

definition set_enabled :: "string \<Rightarrow> bool \<Rightarrow> (string \<times> ext_info) list \<Rightarrow> (string \<times> ext_info) list" where
  "set_enabled name v tbl =
     AList.update name ((case map_of tbl name of None \<Rightarrow> empty_info | Some i \<Rightarrow> i)\<lparr>enabled := v\<rparr>) tbl"

text \<open>\<open>info.get(name, {}).get('enabled')\<close>\<close>

definition is_enabled :: "world \<Rightarrow> string \<Rightarrow> bool" where
  "is_enabled w name = (case map_of (info w) name of None \<Rightarrow> False | Some i \<Rightarrow> enabled i)"

text \<open>Python's \<open>n in s\<close> on two strings.\<close>

fun contains :: "string \<Rightarrow> string \<Rightarrow> bool" where
  "contains [] n = (n = [])"
| "contains (c # s) n = (take (length n) (c # s) = n \<or> contains s n)"

text \<open>
  \<open>cur = SETTINGS.get('enabled_extensions', [])[:]\<close>: slicing copies a list or a string
  and raises \<open>TypeError\<close> on \<open>None\<close> and on a number.
\<close>

definition enabled_copy :: "world \<Rightarrow> exn + jvalue" where
  "enabled_copy w =
     (case SETTINGS w ''enabled_extensions'' of
        None \<Rightarrow> Inr (JNames [])
      | Some (JNames xs) \<Rightarrow> Inr (JNames xs)
      | Some (JStr s) \<Rightarrow> Inr (JStr s)
      | Some JNull \<Rightarrow> Inl (TypeError ''not subscriptable'')
      | Some (JInt n) \<Rightarrow> Inl (TypeError ''not subscriptable''))"

text \<open>\<open>name in cur\<close> for the values \<open>enabled_copy\<close> returns.\<close>

fun name_in :: "string \<Rightarrow> jvalue \<Rightarrow> bool" where
  "name_in name (JNames xs) = (name \<in> set xs)"
| "name_in name (JStr s) = contains s name"
| "name_in name v = False"

text \<open>The tail of \<open>enable\<close>: \<open>if name not in cur: cur.append(name); save_settings(...)\<close>.
  A string has no \<open>append\<close>.\<close>

definition persist_enabled :: "string \<Rightarrow> world \<Rightarrow> exn option \<times> world" where
  "persist_enabled name w =
     (case enabled_copy w of
        Inl e \<Rightarrow> (Some e, w)
      | Inr cur \<Rightarrow>
          if name_in name cur then (None, w)
          else (case cur of
                  JNames xs \<Rightarrow> (None, save_settings [''enabled_extensions'' \<mapsto> JNames (xs @ [name])] w)
                | _ \<Rightarrow> (Some (AttributeError ''append''), w)))"

text \<open>The tail of \<open>disable\<close>: \<open>if name in cur: cur.remove(name); save_settings(...)\<close>.
  \<open>list.remove\<close> deletes the first occurrence; a string has no \<open>remove\<close>.\<close>

definition persist_disabled :: "string \<Rightarrow> world \<Rightarrow> exn option \<times> world" where
  "persist_disabled name w =
     (case enabled_copy w of
        Inl e \<Rightarrow> (Some e, w)
      | Inr cur \<Rightarrow>
          if name_in name cur then
            (case cur of
               JNames xs \<Rightarrow> (None, save_settings [''enabled_extensions'' \<mapsto> JNames (remove1 name xs)] w)
             | _ \<Rightarrow> (Some (AttributeError ''remove''), w))
          else (None, w))"

text \<open>\<open>if hasattr(mod, 'setup') and callable(mod.setup): mod.setup(api)\<close>, and the same for
  \<open>teardown\<close>.\<close>

definition call_hook :: "string \<Rightarrow> hook option \<Rightarrow> world \<Rightarrow> exn option \<times> world" where
  "call_hook name ho w = (case ho of None \<Rightarrow> (None, w) | Some h \<Rightarrow> run_hook name h w)"

text \<open>The first two statements of the \<open>try\<close> of \<open>enable\<close>:
  \<open>self.resources.setdefault(name, [])\<close> and \<open>self.menu_items[name] = []\<close>.\<close>

definition prepare :: "string \<Rightarrow> world \<Rightarrow> world" where
  "prepare name w =
     (let w1 = (case resources w name of
                  None \<Rightarrow> w\<lparr>resources := (resources w)(name \<mapsto> [])\<rparr>
                | Some rs \<Rightarrow> w)
      in w1\<lparr>menu_items := (menu_items w1)(name \<mapsto> [])\<rparr>)"

text \<open>The statements of \<open>enable\<close> after the hook: mark, persist, rebuild the menu.\<close>

definition mark_enabled :: "string \<Rightarrow> world \<Rightarrow> exn option \<times> world" where
  "mark_enabled name w =
     (case persist_enabled name (w\<lparr>info := set_enabled name True (info w)\<rparr>) of
        (Some e, w') \<Rightarrow> (Some e, w')
      | (None, w') \<Rightarrow> (None, build_extensions_menu w'))"

text \<open>\<open>enable\<close>; its \<open>except Exception: raise\<close> passes every exception on.\<close>

definition enable :: "string \<Rightarrow> world \<Rightarrow> exn option \<times> world" where
  "enable name w =
     (case loaded w name of
        None \<Rightarrow> (Some (RuntimeError ''Extension not loaded''), w)
      | Some None \<Rightarrow> (Some (RuntimeError ''Extension not loaded''), w)
      | Some (Some m) \<Rightarrow>
          (case call_hook name (setup_hook m) (prepare name w) of
             (Some e, w') \<Rightarrow> (Some e, w')
           | (None, w') \<Rightarrow> mark_enabled name w'))"

text \<open>One iteration of the loop of \<open>_cleanup_resources\<close>, inside its \<open>try\<close>. What the
  disposer does besides returning or raising is outside the manager's state.\<close>

definition dispose :: "resource \<Rightarrow> world \<Rightarrow> exn option \<times> world" where
  "dispose r w =
     (if has_destroy r then
        (if dispose_raises r then Some (PyException ''destroy'') else None,
         w\<lparr>disposed := disposed w @ [Destroyed r]\<rparr>)
      else if is_callable r then
        (if dispose_raises r then Some (PyException ''call'') else None,
         w\<lparr>disposed := disposed w @ [Called r]\<rparr>)
      else (None, w))"

fun cleanup_loop :: "resource list \<Rightarrow> world \<Rightarrow> world" where
  "cleanup_loop [] w = w"
| "cleanup_loop (r # rs) w =
     (case dispose r w of
        (None, w') \<Rightarrow> cleanup_loop rs w'
      | (Some e, w') \<Rightarrow> cleanup_loop rs w')"

text \<open>\<open>self.resources.get(name, []) or []\<close>\<close>

definition registered :: "world \<Rightarrow> string \<Rightarrow> resource list" where
  "registered w name = (case resources w name of None \<Rightarrow> [] | Some rs \<Rightarrow> rs)"

definition cleanup_resources :: "string \<Rightarrow> world \<Rightarrow> world" where
  "cleanup_resources name w =
     (let w' = cleanup_loop (registered w name) w
      in w'\<lparr>resources := (resources w')(name \<mapsto> [])\<rparr>)"

text \<open>The statements of \<open>disable\<close> between the hook and the enabled flag: release the
  resources, clear the menu items, destroy the submenu if there is one.\<close>

definition release :: "string \<Rightarrow> world \<Rightarrow> world" where
  "release name w =
     (let w2 = cleanup_resources name w;
          w3 = w2\<lparr>menu_items := (menu_items w2)(name \<mapsto> [])\<rparr>
      in if name \<in> submenus w3
         then w3\<lparr>destroyed_menus := destroyed_menus w3 @ [name], submenus := submenus w3 - {name}\<rparr>
         else w3)"

text \<open>The rest of \<open>disable\<close>: mark, persist, rebuild the menu.\<close>

definition mark_disabled :: "string \<Rightarrow> world \<Rightarrow> exn option \<times> world" where
  "mark_disabled name w =
     (case persist_disabled name (w\<lparr>info := set_enabled name False (info w)\<rparr>) of
        (Some e, w') \<Rightarrow> (Some e, w')
      | (None, w') \<Rightarrow> (None, build_extensions_menu w'))"

text \<open>The body of the \<open>try\<close> of \<open>disable\<close>.\<close>

definition disable_body :: "string \<Rightarrow> ext_module \<Rightarrow> world \<Rightarrow> exn option \<times> world" where
  "disable_body name m w =
     (case call_hook name (teardown_hook m) w of
        (Some e, w') \<Rightarrow> (Some e, w')
      | (None, w') \<Rightarrow> mark_disabled name (release name w'))"

text \<open>\<open>disable\<close>; its \<open>except Exception: pass\<close> ends the call wherever the body raised.\<close>

definition disable :: "string \<Rightarrow> world \<Rightarrow> exn option \<times> world" where
  "disable name w =
     (case loaded w name of
        None \<Rightarrow> (None, w)
      | Some None \<Rightarrow> (None, w)
      | Some (Some m) \<Rightarrow>
          (case disable_body name m w of
             (None, w') \<Rightarrow> (None, w')
           | (Some e, w') \<Rightarrow> (None, w')))"

text \<open>
  What \<open>_scan_files\<close> and the import machinery give \<open>load_all\<close> for one entry of the
  extensions directory: its name, the path of its entry module, \<open>os.path.dirname(path)\<close>,
  the path of its \<open>README.md\<close> if there is one, and what executing the module gives: the
  module, or the text of the exception.
\<close>

datatype scanned =
  Scanned (s_name: string) (s_path: string) (s_dir: string) (s_readme: "string option")
    (s_load: "string + ext_module")

text \<open>\<open>enabled = SETTINGS.get('enabled_extensions', []) or []\<close>\<close>

definition falsy :: "jvalue \<Rightarrow> bool" where
  "falsy v = (case v of JNull \<Rightarrow> True | JInt n \<Rightarrow> n = 0 | JStr s \<Rightarrow> s = [] | JNames xs \<Rightarrow> xs = [])"

definition enabled_or_empty :: "world \<Rightarrow> jvalue" where
  "enabled_or_empty w =
     (case SETTINGS w ''enabled_extensions'' of
        None \<Rightarrow> JNames []
      | Some v \<Rightarrow> if falsy v then JNames [] else v)"

text \<open>\<open>name in enabled\<close>, which raises \<open>TypeError\<close> when \<open>enabled\<close> is not iterable.\<close>

definition member_of :: "string \<Rightarrow> jvalue \<Rightarrow> exn + bool" where
  "member_of name v =
     (case v of
        JNames xs \<Rightarrow> Inr (name \<in> set xs)
      | JStr s \<Rightarrow> Inr (contains s name)
      | JInt n \<Rightarrow> Inl (TypeError ''not iterable'')
      | JNull \<Rightarrow> Inl (TypeError ''not iterable''))"

fun exn_text :: "exn \<Rightarrow> string" where
  "exn_text (RuntimeError m) = m"
| "exn_text (OSError m) = m"
| "exn_text (TypeError m) = m"
| "exn_text (AttributeError m) = m"
| "exn_text BdbQuit = []"
| "exn_text (PyException m) = m"

text \<open>The \<open>except\<close> branch of the loading loop.\<close>

definition load_failed :: "scanned \<Rightarrow> string \<Rightarrow> world \<Rightarrow> world" where
  "load_failed s e w =
     log (''Failed to load extension '' @ s_name s @ '': '' @ e)
       (w\<lparr>loaded := (loaded w)(s_name s \<mapsto> None),
          info := AList.update (s_name s)
                    \<lparr>path = Some (s_path s), enabled = False, dir = Some (s_dir s),
                     readme = None, error = Some e\<rparr> (info w)\<rparr>)"

text \<open>One iteration of the loading loop: the body of its \<open>try\<close>, then its \<open>except\<close>.\<close>

definition load_one :: "jvalue \<Rightarrow> scanned \<Rightarrow> world \<Rightarrow> world" where
  "load_one en s w =
     (case s_load s of
        Inl e \<Rightarrow> load_failed s e w
      | Inr m \<Rightarrow>
          (case member_of (s_name s) en of
             Inl e \<Rightarrow> load_failed s (exn_text e) w
           | Inr b \<Rightarrow>
               w\<lparr>loaded := (loaded w)(s_name s \<mapsto> Some m),
                 info := AList.update (s_name s)
                           \<lparr>path = Some (s_path s), enabled = b, dir = Some (s_dir s),
                            readme = s_readme s, error = None\<rparr> (info w)\<rparr>))"

text \<open>The first loop of \<open>load_all\<close>, over \<open>list(self.info.keys())\<close>.\<close>

fun disable_enabled :: "string list \<Rightarrow> world \<Rightarrow> world" where
  "disable_enabled [] w = w"
| "disable_enabled (en # ens) w =
     disable_enabled ens
       (if is_enabled w en
        then (case disable en w of (None, w') \<Rightarrow> w' | (Some e, w') \<Rightarrow> w')
        else w)"

text \<open>The last loop of \<open>load_all\<close>, over \<open>list(self.info.items())\<close>.\<close>

fun enable_marked :: "string list \<Rightarrow> world \<Rightarrow> world" where
  "enable_marked [] w = w"
| "enable_marked (name # names) w =
     enable_marked names
       (if is_enabled w name
        then (case enable name w of (None, w') \<Rightarrow> w' | (Some e, w') \<Rightarrow> w')
        else w)"

definition load_all :: "scanned list \<Rightarrow> world \<Rightarrow> world" where
  "load_all files w =
     (let w1 = disable_enabled (map fst (info w)) w;
          w2 = w1\<lparr>loaded := Map.empty, info := [], menu_items := Map.empty, resources := Map.empty\<rparr>;
          w3 = fold (load_one (enabled_or_empty w2)) files w2
      in enable_marked (map fst (info w3)) w3)"

text \<open>The state \<open>ExtensionManager(EXT_DIR, menu_ext)\<close> starts from, with empty settings, no
  listener and a writable settings file.\<close>

definition initial_world :: world where
  "initial_world =
     \<lparr>SETTINGS = Map.empty, settings_file = None, writable = True,
      EVENT_LISTENERS = Map.empty, dispatched = [], LOG = [], thread_ok = True, after_ok = True,
      loaded = Map.empty, info = [], submenus = {}, resources = Map.empty,
      menu_items = Map.empty, disposed = [], destroyed_menus = [], menu_builds = 0\<rparr>"

text \<open>The menu items a hook registers before it returns or raises.\<close>

fun added_items :: "hook \<Rightarrow> (string \<times> callback) list" where
  "added_items [] = []"
| "added_items (RegisterResource r # cs) = added_items cs"
| "added_items (AddCommand label cb # cs) = (label, cb) # added_items cs"
| "added_items (Raise e # cs) = []"

text \<open>The exception that ends a hook, if one does.\<close>

fun raised :: "hook \<Rightarrow> exn option" where
  "raised [] = None"
| "raised (Raise e # cs) = Some e"
| "raised (c # cs) = raised cs"

text \<open>The disposer \<open>_cleanup_resources\<close> invokes for a resource, if it has one.\<close>

definition disposal_of :: "resource \<Rightarrow> disposal option" where
  "disposal_of r =
     (if has_destroy r then Some (Destroyed r)
      else if is_callable r then Some (Called r)
      else None)"

section \<open>Debugger (\<open>open_debugger\<close>)\<close>

text \<open>The tuples the worker puts on the queue.\<close>

datatype msg = MStopped string nat | MError string | MFinished | MExited

text \<open>The value given to \<open>set_action\<close>.\<close>

datatype action = Step | Next | Continue | Quit | Other string

text \<open>The method of \<open>bdb.Bdb\<close> that \<open>user_line\<close> calls before it returns: \<open>set_step\<close>,
  \<open>set_next\<close>, \<open>set_continue\<close>, or none.\<close>

datatype resume = SetStep | SetNext | SetContinue | Unchanged

text \<open>
  What the debugged program can raise: an instance of \<open>Exception\<close>, or an exception that
  is not one and that \<open>except Exception\<close> lets through (\<open>SystemExit\<close> from
  \<open>sys.exit()\<close>, \<open>KeyboardInterrupt\<close>), given by its name.
\<close>

datatype thrown = Exc exn | BaseExc string

text \<open>
  How \<open>exec(code)\<close> under the tracer looks from \<open>SimpleGuiBdb\<close>: the program ends, by
  returning or by raising, or the base class calls \<open>user_line\<close> for a file and a line, and
  what follows depends on the stepping mode \<open>user_line\<close> selected.
\<close>

datatype outcome = Returns | Raises thrown

datatype run = Ends outcome | AtLine string nat "resume \<Rightarrow> run"

text \<open>
  The breakpoints of \<open>bdb\<close>, as pairs of a file name and a line. \<open>Breakpoint.bplist\<close> is
  an attribute of the class, one table for the process; \<open>Bdb.__init__\<close> copies it into the
  new instance (\<open>_load_breaks\<close>), and \<open>dispatch_line\<close> stops where \<open>stop_here\<close> or
  \<open>break_here\<close> holds.
\<close>

type_synonym breakpoints = "(string \<times> nat) list"

text \<open>The source text, as \<open>compile\<close> and \<open>exec\<close> see it: what the program does under a
  tracer that holds the given breakpoints.\<close>

datatype source = Uncompilable string | Program "breakpoints \<Rightarrow> run"

definition compile_source :: "source \<Rightarrow> exn + (breakpoints \<Rightarrow> run)" where
  "compile_source src =
     (case src of
        Uncompilable m \<Rightarrow> Inl (PyException (''SyntaxError: '' @ m))
      | Program code \<Rightarrow> Inr code)"

text \<open>The fields of \<open>SimpleGuiBdb\<close>, with the \<open>breaks\<close> it inherits.\<close>

record tracer =
  gui_q :: "msg list"
  next_action :: "action option"
  stop_requested :: bool
  breaks :: breakpoints

text \<open>
  \<open>user_line\<close> leaves in one of three ways: the worker stays in \<open>_wait_event.wait()\<close>
  because no directive comes, it raises, or it returns after selecting a stepping mode.
\<close>

datatype line_result =
    Parked tracer
  | Raised exn tracer
  | Resumed resume tracer "action list"

text \<open>
  \<open>user_line\<close>. The list holds the directives the controller will give with
  \<open>set_action\<close>, one for each wait; \<open>set_action\<close> stores the directive and sets the event.
\<close>

definition user_line :: "string \<Rightarrow> nat \<Rightarrow> tracer \<Rightarrow> action list \<Rightarrow> line_result" where
  "user_line fname lineno t ds =
     (if stop_requested t then Raised BdbQuit t
      else
        let t1 = t\<lparr>gui_q := gui_q t @ [MStopped fname lineno]\<rparr>
        in (case ds of
              [] \<Rightarrow> Parked t1
            | a # ds' \<Rightarrow>
                let t2 = t1\<lparr>next_action := Some a\<rparr>
                in (case a of
                      Step \<Rightarrow> Resumed SetStep t2 ds'
                    | Next \<Rightarrow> Resumed SetNext t2 ds'
                    | Continue \<Rightarrow> Resumed SetContinue t2 ds'
                    | Quit \<Rightarrow> Raised BdbQuit (t2\<lparr>stop_requested := True\<rparr>)
                    | Other v \<Rightarrow> Resumed Unchanged t2 ds')))"

text \<open>How the worker's call of \<open>gui_bdb.run\<close> ends: never (the worker waits), or by
  returning or raising.\<close>

datatype ending = Waiting | Done "thrown option"

text \<open>
  \<open>bdb.Bdb.run\<close> of the standard library, which the tracer inherits:
  \<^verbatim>\<open>try: exec(cmd, globals, locals)
except BdbQuit: pass
finally: self.quitting = True; sys.settrace(None)\<close>
  An exception raised by \<open>user_line\<close> leaves \<open>exec\<close> like one raised by the program.
\<close>

definition leave_run :: "thrown \<Rightarrow> tracer \<Rightarrow> ending \<times> tracer" where
  "leave_run th t = (if th = Exc BdbQuit then (Done None, t) else (Done (Some th), t))"

primrec trace_run :: "run \<Rightarrow> tracer \<Rightarrow> action list \<Rightarrow> ending \<times> tracer" where
  "trace_run (Ends res) t ds =
     (case res of Returns \<Rightarrow> (Done None, t) | Raises th \<Rightarrow> leave_run th t)"
| "trace_run (AtLine fname lineno k) t ds =
     (case user_line fname lineno t ds of
        Parked t' \<Rightarrow> (Waiting, t')
      | Raised e t' \<Rightarrow> leave_run (Exc e) t'
      | Resumed r t' ds' \<Rightarrow> trace_run (k r) t' ds')"

definition bdb_run :: "(breakpoints \<Rightarrow> run) \<Rightarrow> tracer \<Rightarrow> action list \<Rightarrow> ending \<times> tracer" where
  "bdb_run code t ds = trace_run (code (breaks t)) t ds"

text \<open>\<open>traceback.format_exc()\<close>: the header line, then the exception.\<close>

definition format_exc :: "exn \<Rightarrow> string" where
  "format_exc e = ''Traceback (most recent call last):'' @ [CHR 0x0A] @ exn_text e"

text \<open>The body of the \<open>try\<close> of \<open>_thread_runner\<close>: \<open>compile\<close>, then \<open>gui_bdb.run\<close>.\<close>

definition try_body :: "source \<Rightarrow> tracer \<Rightarrow> action list \<Rightarrow> ending \<times> tracer" where
  "try_body src gui_bdb ds =
     (case compile_source src of
        Inl e \<Rightarrow> (Done (Some (Exc e)), gui_bdb)
      | Inr code \<Rightarrow> bdb_run code gui_bdb ds)"

text \<open>
  \<open>_thread_runner\<close>, from \<open>Breakpoint.bplist\<close> and the queue as it finds them: whether the
  thread ended, and the queue then. The two \<open>except\<close> clauses are tried in the order of the
  source, then \<open>finally\<close>. An exception that is not an instance of \<open>Exception\<close> matches
  neither clause: only \<open>finally\<close> runs, and the exception ends the thread.
\<close>

definition thread_runner :: "source \<Rightarrow> breakpoints \<Rightarrow> msg list \<Rightarrow> action list \<Rightarrow> bool \<times> msg list" where
  "thread_runner src bp q ds =
     (case try_body src \<lparr>gui_q = q, next_action = None, stop_requested = False, breaks = bp\<rparr> ds of
        (Waiting, t) \<Rightarrow> (False, gui_q t)
      | (Done None, t) \<Rightarrow> (True, gui_q t @ [MFinished])
      | (Done (Some (Exc e)), t) \<Rightarrow>
          if e = BdbQuit then (True, gui_q t @ [MExited] @ [MFinished])
          else (True, gui_q t @ [MError (format_exc e)] @ [MFinished])
      | (Done (Some (BaseExc n)), t) \<Rightarrow> (True, gui_q t @ [MFinished]))"








text \<open>
  The run of a module whose statements stand on the given lines and call nothing, ending in
  \<open>res\<close>. The tracer starts in stepping mode; it calls \<open>user_line\<close> at a line when it is
  stepping or the line has a breakpoint; \<open>set_step\<close> and \<open>set_next\<close> make it step,
  \<open>set_continue\<close> makes it run on.
\<close>

definition next_mode :: "resume \<Rightarrow> bool \<Rightarrow> bool" where
  "next_mode r stepping = (if r = SetContinue then False else if r = Unchanged then stepping else True)"

fun walk :: "string \<Rightarrow> breakpoints \<Rightarrow> bool \<Rightarrow> nat list \<Rightarrow> outcome \<Rightarrow> run" where
  "walk fname bp stepping [] res = Ends res"
| "walk fname bp stepping (n # ns) res =
     (if stepping \<or> (fname, n) \<in> set bp
      then AtLine fname n (\<lambda>r. walk fname bp (next_mode r stepping) ns res)
      else walk fname bp stepping ns res)"

definition straight_line :: "string \<Rightarrow> nat list \<Rightarrow> outcome \<Rightarrow> breakpoints \<Rightarrow> run" where
  "straight_line fname ns res bp = walk fname bp True ns res"

text \<open>The number of stops a run can make at most, and whether a run never raises.\<close>

primrec height :: "run \<Rightarrow> nat" where
  "height (Ends res) = 0"
| "height (AtLine fname lineno k) =
     Suc (max (max (height (k SetStep)) (height (k SetNext)))
              (max (height (k SetContinue)) (height (k Unchanged))))"

primrec returns_only :: "run \<Rightarrow> bool" where
  "returns_only (Ends res) = (res = Returns)"
| "returns_only (AtLine fname lineno k) =
     (returns_only (k SetStep) \<and> returns_only (k SetNext)
      \<and> returns_only (k SetContinue) \<and> returns_only (k Unchanged))"



section \<open>Properties of the settings store\<close>

text \<open>
  Claim C10. A \<open>save_settings(d)\<close> whose write succeeds merges \<open>d\<close> into the settings: a key
  that is not in \<open>d\<close> keeps its value and a key of \<open>d\<close> takes the value \<open>d\<close> gives it.
  When the write raises, the in-memory settings are exactly what they were before the call.
\<close>

theorem save_settings_merges:
  "(writable st \<and> k \<notin> dom d \<longrightarrow> SETTINGS (save_settings d st) k = SETTINGS st k)
   \<and> (writable st \<and> k \<in> dom d \<longrightarrow> SETTINGS (save_settings d st) k = d k)
   \<and> (\<not> writable st \<longrightarrow> SETTINGS (save_settings d st) = SETTINGS st)"
  by (auto simp: save_settings_def write_settings_file_def Let_def map_add_def split: option.splits)

theorem save_settings_merges_witness:
  "SETTINGS (save_settings [''font_size'' \<mapsto> 12]
      \<lparr>SETTINGS = [''theme'' \<mapsto> 1::int], settings_file = None, writable = True\<rparr>) ''theme'' = Some 1
   \<and> SETTINGS (save_settings [''font_size'' \<mapsto> 12]
      \<lparr>SETTINGS = [''theme'' \<mapsto> 1::int], settings_file = None, writable = True\<rparr>) ''font_size'' = Some 12
   \<and> SETTINGS (save_settings [''font_size'' \<mapsto> 12]
      \<lparr>SETTINGS = [''theme'' \<mapsto> 1::int], settings_file = None, writable = False\<rparr>) = [''theme'' \<mapsto> 1]"
  using
    save_settings_merges [of "\<lparr>SETTINGS = [''theme'' \<mapsto> 1::int], settings_file = None, writable = True\<rparr>"
      "''theme''" "[''font_size'' \<mapsto> 12]"]
    save_settings_merges [of "\<lparr>SETTINGS = [''theme'' \<mapsto> 1::int], settings_file = None, writable = True\<rparr>"
      "''font_size''" "[''font_size'' \<mapsto> 12]"]
    save_settings_merges [of "\<lparr>SETTINGS = [''theme'' \<mapsto> 1::int], settings_file = None, writable = False\<rparr>"
      "''theme''" "[''font_size'' \<mapsto> 12]"]
  by simp

section \<open>Properties of the event bus\<close>

lemma kept_without_filters [simp]: "kept None None l = True"
  by (cases l) (simp add: kept_def truthy_cb_def truthy_owner_def)

text \<open>
  Claim C1, as the specification states it: \<open>remove_event_listener(event)\<close> with neither a
  callback nor an owner empties the listener list of an event that has a listener. It fails
  on one registered listener: the third branch of the loop keeps every entry.
\<close>

theorem remove_without_filters_counterexample:
  "EVENT_LISTENERS (remove_event_listener ''file_saved'' None None
     \<lparr>SETTINGS = Map.empty, settings_file = None, writable = True,
      EVENT_LISTENERS = [''file_saved'' \<mapsto> [(Callback 1 None, None, False)]],
      dispatched = [], LOG = [], thread_ok = True, after_ok = True\<rparr>) ''file_saved''
   \<noteq> Some []"
  by (simp add: remove_event_listener_def)

text \<open>
  Claim C1, amended: \<open>remove_event_listener(event)\<close> with neither a callback nor an owner
  removes no listener; the bus, and with it the listener list of every event, is left as it
  was.
\<close>

theorem remove_without_filters_keeps_all:
  "remove_event_listener ev None None b = b"
  by (simp add: remove_event_listener_def map_upd_triv split: option.splits)

lemma emit_one_result:
  "\<exists>b'. emit_one l b = Inr b' \<and> EVENT_LISTENERS b' = EVENT_LISTENERS b
      \<and> thread_ok b' = thread_ok b \<and> after_ok b' = after_ok b
      \<and> (\<exists>ds. dispatched b' = dispatched b @ ds \<and> map target ds = map fst (filter (reachable b) [l]))"
  by (cases l) (auto simp: emit_one_def start_thread_def root_after_def safe_call_def log_def reachable_def
        split: sum.splits option.splits)

lemma reachable_cong: "thread_ok b' = thread_ok b \<Longrightarrow> reachable b' = reachable b"
  by (auto simp: reachable_def fun_eq_iff)

lemma emit_loop_result:
  "\<exists>b'. emit_loop ls b = Inr b' \<and> EVENT_LISTENERS b' = EVENT_LISTENERS b
      \<and> thread_ok b' = thread_ok b \<and> after_ok b' = after_ok b
      \<and> (\<exists>ds. dispatched b' = dispatched b @ ds \<and> map target ds = map fst (filter (reachable b) ls))"
proof (induction ls arbitrary: b)
  case Nil
  then show ?case by simp
next
  case (Cons l ls)
  obtain b1 ds1 where 1: "emit_one l b = Inr b1" "EVENT_LISTENERS b1 = EVENT_LISTENERS b"
     "thread_ok b1 = thread_ok b" "after_ok b1 = after_ok b"
     "dispatched b1 = dispatched b @ ds1" "map target ds1 = map fst (filter (reachable b) [l])"
    using emit_one_result [of l b] by blast
  obtain b2 ds2 where 2: "emit_loop ls b1 = Inr b2" "EVENT_LISTENERS b2 = EVENT_LISTENERS b1"
     "thread_ok b2 = thread_ok b1" "after_ok b2 = after_ok b1"
     "dispatched b2 = dispatched b1 @ ds2" "map target ds2 = map fst (filter (reachable b1) ls)"
    using Cons.IH [of b1] by blast
  have r: "reachable b1 = reachable b" using 1(3) by (rule reachable_cong)
  have "map target (ds1 @ ds2) = map fst (filter (reachable b) (l # ls))"
    using 1(6) 2(6) r by simp
  moreover have "dispatched b2 = dispatched b @ (ds1 @ ds2)" using 1(5) 2(5) by simp
  ultimately show ?case using 1 2 by auto
qed

text \<open>
  Claim C6. \<open>emit_event\<close> returns normally whatever the listeners do; it leaves
  \<open>EVENT_LISTENERS\<close> as it was, so a listener that raises stays registered; and the
  callbacks it dispatches are those of all listeners of the event whose dispatch mechanism
  takes work, in registration order, whether or not any of them raises.
\<close>

theorem emit_event_isolates_listeners:
  "\<exists>b' ds. emit_event ev b = Inr b' \<and> EVENT_LISTENERS b' = EVENT_LISTENERS b
      \<and> dispatched b' = dispatched b @ ds
      \<and> map target ds = map fst (filter (reachable b) (listeners_of b ev))"
  using emit_loop_result [of "listeners_of b ev" b] by (auto simp: emit_event_def)

section \<open>Properties of the extension manager\<close>

lemmas ext_defs = initial_world_def empty_info_def enable_def disable_def disable_body_def
  call_hook_def prepare_def mark_enabled_def mark_disabled_def release_def cleanup_resources_def
  registered_def dispose_def persist_enabled_def persist_disabled_def enabled_copy_def
  save_settings_def write_settings_file_def build_extensions_menu_def set_enabled_def
  is_enabled_def register_resource_def register_menu_item_def Let_def
  load_all_def load_one_def load_failed_def enabled_or_empty_def falsy_def member_of_def log_def
  disposal_of_def

lemma run_hook_fst: "fst (run_hook name h w) = raised h"
  by (induction name h w rule: run_hook.induct) auto

lemma run_hook_frame:
  "info (snd (run_hook name h w)) = info w"
  "loaded (snd (run_hook name h w)) = loaded w"
  "disposed (snd (run_hook name h w)) = disposed w"
  "submenus (snd (run_hook name h w)) = submenus w"
  "destroyed_menus (snd (run_hook name h w)) = destroyed_menus w"
  "SETTINGS (snd (run_hook name h w)) = SETTINGS w"
  "settings_file (snd (run_hook name h w)) = settings_file w"
  "writable (snd (run_hook name h w)) = writable w"
  by (induction name h w rule: run_hook.induct)
     (auto simp: register_resource_def register_menu_item_def)

lemma run_hook_menu_items:
  "menu_items w name = Some l \<Longrightarrow>
   menu_items (snd (run_hook name h w)) name = Some (l @ added_items h)"
  by (induction name h w arbitrary: l rule: run_hook.induct)
     (auto simp: register_resource_def register_menu_item_def)

lemma run_hook_resources_other:
  "n \<noteq> name \<Longrightarrow> resources (snd (run_hook name h w)) n = resources w n"
  by (induction name h w rule: run_hook.induct)
     (auto simp: register_resource_def register_menu_item_def)

lemma run_hook_resources_grow:
  "resources w name = Some rs \<Longrightarrow>
   \<exists>rs'. resources (snd (run_hook name h w)) name = Some (rs @ rs')"
proof (induction name h w arbitrary: rs rule: run_hook.induct)
  case (2 name r cs w)
  from 2(1) [of "rs @ [r]"] 2(2) show ?case
    by (auto simp: register_resource_def)
qed (auto simp: register_menu_item_def)

lemma call_hook_fst: "fst (call_hook name ho w) = (case ho of None \<Rightarrow> None | Some h \<Rightarrow> raised h)"
  by (simp add: call_hook_def run_hook_fst split: option.splits)

lemma call_hook_frame:
  "info (snd (call_hook name ho w)) = info w"
  "loaded (snd (call_hook name ho w)) = loaded w"
  "disposed (snd (call_hook name ho w)) = disposed w"
  "submenus (snd (call_hook name ho w)) = submenus w"
  "destroyed_menus (snd (call_hook name ho w)) = destroyed_menus w"
  "SETTINGS (snd (call_hook name ho w)) = SETTINGS w"
  "settings_file (snd (call_hook name ho w)) = settings_file w"
  "writable (snd (call_hook name ho w)) = writable w"
  by (simp_all add: call_hook_def run_hook_frame split: option.splits)

lemma call_hook_menu_items:
  "menu_items w name = Some l \<Longrightarrow>
   menu_items (snd (call_hook name ho w)) name
     = Some (l @ (case ho of None \<Rightarrow> [] | Some h \<Rightarrow> added_items h))"
  by (simp add: call_hook_def run_hook_menu_items split: option.splits)

lemma save_settings_frame:
  "info (save_settings d w) = info w"
  "loaded (save_settings d w) = loaded w"
  "menu_items (save_settings d w) = menu_items w"
  "resources (save_settings d w) = resources w"
  "disposed (save_settings d w) = disposed w"
  "submenus (save_settings d w) = submenus w"
  by (auto simp: save_settings_def write_settings_file_def Let_def)

lemma persist_enabled_frame:
  "info (snd (persist_enabled name w)) = info w"
  "loaded (snd (persist_enabled name w)) = loaded w"
  "menu_items (snd (persist_enabled name w)) = menu_items w"
  "resources (snd (persist_enabled name w)) = resources w"
  "disposed (snd (persist_enabled name w)) = disposed w"
  "submenus (snd (persist_enabled name w)) = submenus w"
  by (auto simp: persist_enabled_def save_settings_frame split: sum.splits jvalue.splits)

lemma persist_disabled_frame:
  "info (snd (persist_disabled name w)) = info w"
  "loaded (snd (persist_disabled name w)) = loaded w"
  "menu_items (snd (persist_disabled name w)) = menu_items w"
  "resources (snd (persist_disabled name w)) = resources w"
  "disposed (snd (persist_disabled name w)) = disposed w"
  "submenus (snd (persist_disabled name w)) = submenus w"
  by (auto simp: persist_disabled_def save_settings_frame split: sum.splits jvalue.splits)

lemma mark_enabled_snd:
  "snd (mark_enabled name w) = snd (persist_enabled name (w\<lparr>info := set_enabled name True (info w)\<rparr>))
   \<or> snd (mark_enabled name w)
       = build_extensions_menu (snd (persist_enabled name (w\<lparr>info := set_enabled name True (info w)\<rparr>)))"
  by (simp add: mark_enabled_def split: prod.splits option.splits)

lemma mark_enabled_frame:
  "loaded (snd (mark_enabled name w)) = loaded w"
  "menu_items (snd (mark_enabled name w)) = menu_items w"
  "resources (snd (mark_enabled name w)) = resources w"
  "disposed (snd (mark_enabled name w)) = disposed w"
  "submenus (snd (mark_enabled name w)) = submenus w"
  using mark_enabled_snd [of name w]
  by (elim disjE; simp add: persist_enabled_frame build_extensions_menu_def)+

lemma mark_disabled_snd:
  "snd (mark_disabled name w) = snd (persist_disabled name (w\<lparr>info := set_enabled name False (info w)\<rparr>))
   \<or> snd (mark_disabled name w)
       = build_extensions_menu (snd (persist_disabled name (w\<lparr>info := set_enabled name False (info w)\<rparr>)))"
  by (simp add: mark_disabled_def split: prod.splits option.splits)

lemma mark_disabled_frame:
  "loaded (snd (mark_disabled name w)) = loaded w"
  "menu_items (snd (mark_disabled name w)) = menu_items w"
  "resources (snd (mark_disabled name w)) = resources w"
  "disposed (snd (mark_disabled name w)) = disposed w"
  "submenus (snd (mark_disabled name w)) = submenus w"
  using mark_disabled_snd [of name w]
  by (elim disjE; simp add: persist_disabled_frame build_extensions_menu_def)+

lemma enable_loaded_eq:
  "loaded w name = Some (Some m) \<Longrightarrow>
   enable name w =
     (if fst (call_hook name (setup_hook m) (prepare name w)) = None
      then mark_enabled name (snd (call_hook name (setup_hook m) (prepare name w)))
      else call_hook name (setup_hook m) (prepare name w))"
  by (cases "call_hook name (setup_hook m) (prepare name w)")
     (auto simp: enable_def split: option.splits)

lemma prepare_frame:
  "info (prepare name w) = info w"
  "loaded (prepare name w) = loaded w"
  "menu_items (prepare name w) name = Some []"
  by (auto simp: prepare_def Let_def split: option.splits)

lemma enable_not_loaded:
  "loaded w name = None \<or> loaded w name = Some None \<Longrightarrow>
   enable name w = (Some (RuntimeError ''Extension not loaded''), w)"
  by (auto simp: enable_def)

lemma enable_setup_raises:
  assumes "loaded w name = Some (Some m)" "setup_hook m = Some h" "raised h = Some e"
  shows "fst (enable name w) = Some e" "info (snd (enable name w)) = info w"
        "menu_items (snd (enable name w)) name = Some (added_items h)"
proof -
  have f: "fst (call_hook name (setup_hook m) (prepare name w)) = Some e"
    using assms by (simp add: call_hook_fst)
  with assms have en: "enable name w = call_hook name (setup_hook m) (prepare name w)"
    by (simp add: enable_loaded_eq)
  show "fst (enable name w) = Some e" using f en by simp
  show "info (snd (enable name w)) = info w" by (simp add: en call_hook_frame prepare_frame)
  show "menu_items (snd (enable name w)) name = Some (added_items h)"
    using assms call_hook_menu_items [OF prepare_frame(3), of name "setup_hook m" w]
    by (simp add: en)
qed

lemma enable_menu_items:
  assumes "loaded w name = Some (Some m)"
  shows "menu_items (snd (enable name w)) name
         = Some (case setup_hook m of None \<Rightarrow> [] | Some h \<Rightarrow> added_items h)"
  using call_hook_menu_items [OF prepare_frame(3), of name "setup_hook m" w]
  by (simp add: enable_loaded_eq [OF assms] mark_enabled_frame)

lemma cleanup_loop_eq:
  "cleanup_loop rs w = w\<lparr>disposed := disposed w @ List.map_filter disposal_of rs\<rparr>"
  by (induction rs arbitrary: w)
     (simp_all add: dispose_def disposal_of_def List.map_filter_simps)

lemma release_frame:
  "resources (release name w) name = Some []"
  "menu_items (release name w) name = Some []"
  "name \<notin> submenus (release name w)"
  "disposed (release name w) = disposed w @ List.map_filter disposal_of (registered w name)"
  "info (release name w) = info w"
  "loaded (release name w) = loaded w"
  "SETTINGS (release name w) = SETTINGS w"
  "settings_file (release name w) = settings_file w"
  "writable (release name w) = writable w"
  by (simp_all add: release_def cleanup_resources_def cleanup_loop_eq Let_def)

lemma release_other:
  "n \<noteq> name \<Longrightarrow> resources (release name w) n = resources w n"
  by (simp add: release_def cleanup_resources_def cleanup_loop_eq Let_def)

lemma disable_loaded_eq:
  "loaded w name = Some (Some m) \<Longrightarrow>
   disable name w =
     (None, if fst (call_hook name (teardown_hook m) w) = None
            then snd (mark_disabled name (release name (snd (call_hook name (teardown_hook m) w))))
            else snd (call_hook name (teardown_hook m) w))"
  by (cases "call_hook name (teardown_hook m) w";
      cases "mark_disabled name (release name (snd (call_hook name (teardown_hook m) w)))")
     (auto simp: disable_def disable_body_def split: option.splits)

lemma disable_not_loaded:
  "loaded w name = None \<or> loaded w name = Some None \<Longrightarrow> disable name w = (None, w)"
  by (auto simp: disable_def)

lemma disable_fst: "fst (disable name w) = None"
  by (auto simp: disable_def split: option.splits prod.splits)

lemma disable_loaded: "loaded (snd (disable name w)) = loaded w"
proof (cases "loaded w name")
  case None
  then show ?thesis by (simp add: disable_not_loaded)
next
  case (Some mo)
  show ?thesis
  proof (cases mo)
    case None
    with Some show ?thesis by (simp add: disable_not_loaded)
  next
    case (Some m)
    with \<open>loaded w name = Some mo\<close> have "loaded w name = Some (Some m)" by simp
    then show ?thesis
      by (simp add: disable_loaded_eq mark_disabled_frame release_frame call_hook_frame)
  qed
qed

lemma set_enabled_map_of:
  "map_of (set_enabled name v tbl) = (map_of tbl)(name \<mapsto>
      (case map_of tbl name of None \<Rightarrow> empty_info | Some i \<Rightarrow> i)\<lparr>enabled := v\<rparr>)"
  by (simp add: set_enabled_def update_conv')

lemma persist_disabled_info: "info (snd (persist_disabled name w)) = info w"
  by (rule persist_disabled_frame)

lemma mark_disabled_info:
  "info (snd (mark_disabled name w)) = set_enabled name False (info w)"
  using mark_disabled_snd [of name w]
  by (elim disjE; simp add: persist_disabled_frame build_extensions_menu_def)

lemma mark_disabled_is_enabled:
  "is_enabled (snd (mark_disabled name w)) n = (if n = name then False else is_enabled w n)"
  by (simp add: is_enabled_def mark_disabled_info set_enabled_map_of)

lemma persist_disabled_settings:
  assumes "writable w" "SETTINGS w ''enabled_extensions'' = Some (JNames xs)" "name \<in> set xs"
  shows "SETTINGS (snd (persist_disabled name w)) ''enabled_extensions'' = Some (JNames (remove1 name xs))"
        "settings_file (snd (persist_disabled name w)) = Some (SETTINGS (snd (persist_disabled name w)))"
  using assms
  by (simp_all add: persist_disabled_def enabled_copy_def save_settings_def write_settings_file_def Let_def)

lemma mark_disabled_settings:
  assumes "writable w" "SETTINGS w ''enabled_extensions'' = Some (JNames xs)" "name \<in> set xs"
  shows "SETTINGS (snd (mark_disabled name w)) ''enabled_extensions'' = Some (JNames (remove1 name xs))"
        "settings_file (snd (mark_disabled name w)) = Some (SETTINGS (snd (mark_disabled name w)))"
proof -
  define w1 where "w1 = w\<lparr>info := set_enabled name False (info w)\<rparr>"
  have a: "writable w1" "SETTINGS w1 ''enabled_extensions'' = Some (JNames xs)"
    using assms by (simp_all add: w1_def)
  note p = persist_disabled_settings [OF a assms(3)]
  define w2 where "w2 = snd (persist_disabled name w1)"
  have d: "snd (mark_disabled name w) = w2 \<or> snd (mark_disabled name w) = build_extensions_menu w2"
    using mark_disabled_snd [of name w] by (simp add: w1_def w2_def)
  have b: "SETTINGS (build_extensions_menu w2) = SETTINGS w2"
    "settings_file (build_extensions_menu w2) = settings_file w2"
    by (simp_all add: build_extensions_menu_def)
  show "SETTINGS (snd (mark_disabled name w)) ''enabled_extensions'' = Some (JNames (remove1 name xs))"
    using d p(1) b by (auto simp: w2_def [symmetric])
  show "settings_file (snd (mark_disabled name w)) = Some (SETTINGS (snd (mark_disabled name w)))"
    using d p(2) b by (auto simp: w2_def [symmetric])
qed

lemma run_hook_registered_grow:
  "\<exists>rs'. registered (snd (run_hook name h w)) name = registered w name @ rs'"
proof (induction name h w rule: run_hook.induct)
  case (2 name r cs w)
  then obtain rs' where
    "registered (snd (run_hook name cs (register_resource name r w))) name
       = registered (register_resource name r w) name @ rs'" by blast
  moreover have "registered (register_resource name r w) name = registered w name @ [r]"
    by (simp add: registered_def register_resource_def)
  ultimately show ?case by simp
next
  case (3 name label cb cs w)
  moreover have "registered (register_menu_item name label cb w) name = registered w name"
    by (simp add: registered_def register_menu_item_def)
  ultimately show ?case by simp
qed simp_all

lemma call_hook_registered_grow:
  "\<exists>rs'. registered (snd (call_hook name ho w)) name = registered w name @ rs'"
  using run_hook_registered_grow by (cases ho) (simp_all add: call_hook_def)

lemma call_hook_resources_other:
  "n \<noteq> name \<Longrightarrow> resources (snd (call_hook name ho w)) n = resources w n"
  by (cases ho) (simp_all add: call_hook_def run_hook_resources_other)

lemma in_map_filter: "d \<in> set (List.map_filter f xs) \<longleftrightarrow> (\<exists>x \<in> set xs. f x = Some d)"
  by (induction xs) (auto simp: List.map_filter_simps split: option.splits)

lemma disable_teardown_raises:
  assumes "loaded w name = Some (Some m)" "teardown_hook m = Some h" "raised h = Some e"
  shows "disable name w = (None, snd (run_hook name h w))"
  using assms by (simp add: disable_loaded_eq call_hook_fst) (simp add: call_hook_def)

lemma disable_teardown_returns:
  assumes "loaded w name = Some (Some m)"
    "(case teardown_hook m of None \<Rightarrow> None | Some h' \<Rightarrow> raised h') = None"
  shows "disable name w
         = (None, snd (mark_disabled name (release name (snd (call_hook name (teardown_hook m) w)))))"
  using assms by (simp add: disable_loaded_eq call_hook_fst)

lemma disable_teardown_raises_facts:
  assumes "loaded w name = Some (Some m)" "teardown_hook m = Some h" "raised h = Some e"
  shows "disable name w = (None, snd (run_hook name h w))
   \<and> disposed (snd (disable name w)) = disposed w
   \<and> info (snd (disable name w)) = info w
   \<and> submenus (snd (disable name w)) = submenus w
   \<and> SETTINGS (snd (disable name w)) = SETTINGS w
   \<and> settings_file (snd (disable name w)) = settings_file w"
  using disable_teardown_raises [OF assms] by (simp add: run_hook_frame)

lemma disable_teardown_returns_facts:
  assumes "loaded w name = Some (Some m)"
    and t: "(case teardown_hook m of None \<Rightarrow> None | Some h' \<Rightarrow> raised h') = None"
  shows "fst (disable name w) = None
   \<and> resources (snd (disable name w)) name = Some []
   \<and> (\<exists>rs'. disposed (snd (disable name w))
               = disposed w @ List.map_filter disposal_of (registered w name @ rs'))
   \<and> menu_items (snd (disable name w)) name = Some []
   \<and> name \<notin> submenus (snd (disable name w))
   \<and> \<not> is_enabled (snd (disable name w)) name
   \<and> (writable w \<and> SETTINGS w ''enabled_extensions'' = Some (JNames xs) \<and> name \<in> set xs \<longrightarrow>
        SETTINGS (snd (disable name w)) ''enabled_extensions'' = Some (JNames (remove1 name xs))
        \<and> settings_file (snd (disable name w)) = Some (SETTINGS (snd (disable name w))))"
proof -
  define w1 where "w1 = snd (call_hook name (teardown_hook m) w)"
  define w2 where "w2 = release name w1"
  have d: "disable name w = (None, snd (mark_disabled name w2))"
    using disable_teardown_returns [OF assms] by (simp add: w1_def w2_def)
  obtain rs' where g: "registered w1 name = registered w name @ rs'"
    using call_hook_registered_grow [of name "teardown_hook m" w] by (auto simp: w1_def)
  have 1: "fst (disable name w) = None" by (simp add: d)
  have 2: "resources (snd (disable name w)) name = Some []"
    by (simp add: d mark_disabled_frame w2_def release_frame)
  have "disposed (snd (disable name w))
          = disposed w @ List.map_filter disposal_of (registered w name @ rs')"
    by (simp add: d mark_disabled_frame w2_def release_frame g [symmetric])
       (simp add: w1_def call_hook_frame)
  then have 3: "\<exists>rs'. disposed (snd (disable name w))
          = disposed w @ List.map_filter disposal_of (registered w name @ rs')" ..
  have 4: "menu_items (snd (disable name w)) name = Some []"
    by (simp add: d mark_disabled_frame w2_def release_frame)
  have 5: "name \<notin> submenus (snd (disable name w))"
    by (simp add: d mark_disabled_frame w2_def release_frame)
  have 6: "\<not> is_enabled (snd (disable name w)) name"
    by (simp add: d mark_disabled_is_enabled)
  have 7: "writable w \<and> SETTINGS w ''enabled_extensions'' = Some (JNames xs) \<and> name \<in> set xs \<longrightarrow>
             SETTINGS (snd (disable name w)) ''enabled_extensions'' = Some (JNames (remove1 name xs))
           \<and> settings_file (snd (disable name w)) = Some (SETTINGS (snd (disable name w)))"
  proof (rule impI)
    assume a: "writable w \<and> SETTINGS w ''enabled_extensions'' = Some (JNames xs) \<and> name \<in> set xs"
    then have "writable w2" "SETTINGS w2 ''enabled_extensions'' = Some (JNames xs)" "name \<in> set xs"
      by (simp_all add: w2_def release_frame w1_def call_hook_frame)
    from mark_disabled_settings [OF this]
    show "SETTINGS (snd (disable name w)) ''enabled_extensions'' = Some (JNames (remove1 name xs))
           \<and> settings_file (snd (disable name w)) = Some (SETTINGS (snd (disable name w)))"
      by (simp add: d)
  qed
  from 1 2 3 4 5 6 7 show ?thesis by blast
qed

lemma is_enabled_cong: "info w' = info w \<Longrightarrow> is_enabled w' n = is_enabled w n"
  by (simp add: is_enabled_def)

lemma registered_cong: "resources w' n = resources w n \<Longrightarrow> registered w' n = registered w n"
  by (simp add: registered_def)

lemma snd_case_outcome: "(case p of (None, w') \<Rightarrow> w' | (Some e, w') \<Rightarrow> w') = snd p"
  by (cases p; cases "fst p") auto

lemma disable_cases:
  "snd (disable name w) = w
   \<or> (\<exists>m. loaded w name = Some (Some m)
        \<and> (snd (disable name w) = snd (call_hook name (teardown_hook m) w)
           \<or> snd (disable name w)
               = snd (mark_disabled name (release name (snd (call_hook name (teardown_hook m) w))))))"
proof (cases "loaded w name")
  case None
  then show ?thesis by (simp add: disable_not_loaded)
next
  case (Some mo)
  show ?thesis
  proof (cases mo)
    case None
    with Some show ?thesis by (simp add: disable_not_loaded)
  next
    case (Some m)
    with \<open>loaded w name = Some mo\<close> have "loaded w name = Some (Some m)" by simp
    then show ?thesis by (simp add: disable_loaded_eq)
  qed
qed

lemma disable_other:
  assumes "n \<noteq> name"
  shows "resources (snd (disable name w)) n = resources w n"
    and "is_enabled (snd (disable name w)) n = is_enabled w n"
proof -
  have a: "resources (snd (call_hook name ho w)) n = resources w n" for ho
    using assms by (rule call_hook_resources_other)
  have b: "is_enabled (snd (call_hook name ho w)) n = is_enabled w n" for ho
    by (rule is_enabled_cong) (rule call_hook_frame)
  have c: "resources (snd (mark_disabled name (release name (snd (call_hook name ho w))))) n = resources w n" for ho
    using assms by (simp add: mark_disabled_frame release_other a)
  have d: "is_enabled (snd (mark_disabled name (release name (snd (call_hook name ho w))))) n = is_enabled w n" for ho
  proof -
    have "is_enabled (release name (snd (call_hook name ho w))) n = is_enabled w n"
      by (rule is_enabled_cong) (simp add: release_frame call_hook_frame)
    then show ?thesis using assms by (simp add: mark_disabled_is_enabled)
  qed
  show "resources (snd (disable name w)) n = resources w n"
    using disable_cases [of name w] a c by auto
  show "is_enabled (snd (disable name w)) n = is_enabled w n"
    using disable_cases [of name w] b d by auto
qed

lemma disable_disposed_grow: "\<exists>ds. disposed (snd (disable name w)) = disposed w @ ds"
proof -
  have a: "disposed (snd (call_hook name ho w)) = disposed w" for ho by (rule call_hook_frame)
  have c: "\<exists>ds. disposed (snd (mark_disabled name (release name (snd (call_hook name ho w))))) = disposed w @ ds" for ho
    by (simp add: mark_disabled_frame release_frame a)
  show ?thesis using disable_cases [of name w] a c by auto
qed

lemma disable_disposes:
  assumes "loaded w name = Some (Some m)"
    "(case teardown_hook m of None \<Rightarrow> None | Some h \<Rightarrow> raised h) = None"
    "r \<in> set (registered w name)" "disposal_of r = Some d"
  shows "\<exists>ds. disposed (snd (disable name w)) = disposed w @ ds \<and> d \<in> set ds"
proof -
  from disable_teardown_returns_facts [OF assms(1,2)]
  obtain rs' where e: "disposed (snd (disable name w))
      = disposed w @ List.map_filter disposal_of (registered w name @ rs')" by blast
  have "d \<in> set (List.map_filter disposal_of (registered w name @ rs'))"
    using assms(3,4) by (auto simp: in_map_filter)
  with e show ?thesis by blast
qed

lemma disable_enabled_grow: "\<exists>ds. disposed (disable_enabled ens w) = disposed w @ ds"
proof (induction ens arbitrary: w)
  case Nil
  then show ?case by simp
next
  case (Cons en ens)
  show ?case
  proof (cases "is_enabled w en")
    case True
    obtain ds1 where 1: "disposed (snd (disable en w)) = disposed w @ ds1"
      using disable_disposed_grow by blast
    obtain ds2 where 2: "disposed (disable_enabled ens (snd (disable en w)))
        = disposed (snd (disable en w)) @ ds2"
      using Cons.IH by blast
    from 1 2 True show ?thesis by (simp add: snd_case_outcome)
  next
    case False
    then show ?thesis using Cons.IH [of w] by simp
  qed
qed

lemma disable_enabled_disposes:
  assumes "(case teardown_hook m of None \<Rightarrow> None | Some h \<Rightarrow> raised h) = None"
    "disposal_of r = Some d"
  shows "name \<in> set ens \<Longrightarrow> is_enabled w name \<Longrightarrow> loaded w name = Some (Some m) \<Longrightarrow>
         r \<in> set (registered w name) \<Longrightarrow>
         \<exists>ds. disposed (disable_enabled ens w) = disposed w @ ds \<and> d \<in> set ds"
proof (induction ens arbitrary: w)
  case Nil
  then show ?case by simp
next
  case (Cons en ens)
  show ?case
  proof (cases "en = name")
    case True
    obtain ds1 where 1: "disposed (snd (disable name w)) = disposed w @ ds1" "d \<in> set ds1"
      using disable_disposes [OF Cons.prems(3) assms(1) Cons.prems(4) assms(2)] by blast
    obtain ds2 where 2: "disposed (disable_enabled ens (snd (disable name w)))
        = disposed (snd (disable name w)) @ ds2"
      using disable_enabled_grow by blast
    have "disposed (disable_enabled (en # ens) w) = disposed w @ (ds1 @ ds2)"
      using True Cons.prems(2) 1(1) 2 by (simp add: snd_case_outcome)
    moreover have "d \<in> set (ds1 @ ds2)" using 1(2) by simp
    ultimately show ?thesis by blast
  next
    case False
    then have n: "name \<noteq> en" by simp
    have in_rest: "name \<in> set ens" using Cons.prems(1) False by simp
    show ?thesis
    proof (cases "is_enabled w en")
      case True
      let ?w = "snd (disable en w)"
      have "is_enabled ?w name" using disable_other(2) [OF n] Cons.prems(2) by simp
      moreover have "loaded ?w name = Some (Some m)" using Cons.prems(3) by (simp add: disable_loaded)
      moreover have "r \<in> set (registered ?w name)"
        using registered_cong [OF disable_other(1) [OF n, of w]] Cons.prems(4) by simp
      ultimately obtain ds2 where 2: "disposed (disable_enabled ens ?w) = disposed ?w @ ds2" "d \<in> set ds2"
        using Cons.IH [OF in_rest] by blast
      obtain ds1 where 1: "disposed ?w = disposed w @ ds1"
        using disable_disposed_grow by blast
      have "disposed (disable_enabled (en # ens) w) = disposed w @ (ds1 @ ds2)"
        using True 1 2(1) by (simp add: snd_case_outcome)
      moreover have "d \<in> set (ds1 @ ds2)" using 2(2) by simp
      ultimately show ?thesis by blast
    next
      case False
      then show ?thesis using Cons.IH [OF in_rest Cons.prems(2,3,4)] by simp
    qed
  qed
qed

lemma prepare_disposed: "disposed (prepare name w) = disposed w"
  by (simp add: prepare_def Let_def split: option.splits)

lemma enable_disposed: "disposed (snd (enable name w)) = disposed w"
proof (cases "loaded w name")
  case None
  then show ?thesis by (simp add: enable_not_loaded)
next
  case (Some mo)
  show ?thesis
  proof (cases mo)
    case None
    with Some show ?thesis by (simp add: enable_not_loaded)
  next
    case (Some m)
    with \<open>loaded w name = Some mo\<close> have "loaded w name = Some (Some m)" by simp
    then show ?thesis
      by (simp add: enable_loaded_eq mark_enabled_frame call_hook_frame prepare_disposed)
  qed
qed

lemma enable_marked_disposed: "disposed (enable_marked names w) = disposed w"
  by (induction names arbitrary: w) (simp_all add: snd_case_outcome enable_disposed)

lemma load_one_disposed: "disposed (load_one en s w) = disposed w"
  by (simp add: load_one_def load_failed_def log_def split: sum.splits)

lemma fold_load_one_disposed: "disposed (fold (load_one en) files w) = disposed w"
  by (induction files arbitrary: w) (simp_all add: load_one_disposed)

lemma load_all_disposed:
  "disposed (load_all files w) = disposed (disable_enabled (map fst (info w)) w)"
  by (simp add: load_all_def Let_def enable_marked_disposed fold_load_one_disposed)

lemma is_enabled_key: "is_enabled w name \<Longrightarrow> name \<in> set (map fst (info w))"
  by (auto simp: is_enabled_def split: option.splits dest: map_of_SomeD intro: rev_image_eqI)

text \<open>
  Claim C5, as the specification states it: when the \<open>setup\<close> hook raises, the
  extension is not marked \<open>enabled=true\<close> after \<open>enable\<close>. It fails when the flag was
  set before the call: \<open>enable\<close> raises and the extension is still marked. \<open>load_all\<close>
  makes that state itself, since it stores the flag from the persisted list before it calls
  \<open>enable\<close> and swallows what \<open>enable\<close> raises.
\<close>

theorem enable_flag_counterexample:
  "fst (enable ''greeter''
        (initial_world\<lparr>
           loaded := [''greeter'' \<mapsto> Some \<lparr>setup_hook = Some [Raise (PyException ''boom'')],
                                           teardown_hook = None\<rparr>],
           info := [(''greeter'', empty_info\<lparr>enabled := True\<rparr>)]\<rparr>)) = Some (PyException ''boom'')
   \<and> is_enabled (snd (enable ''greeter''
        (initial_world\<lparr>
           loaded := [''greeter'' \<mapsto> Some \<lparr>setup_hook = Some [Raise (PyException ''boom'')],
                                           teardown_hook = None\<rparr>],
           info := [(''greeter'', empty_info\<lparr>enabled := True\<rparr>)]\<rparr>))) ''greeter''
   \<and> is_enabled (load_all
        [Scanned ''greeter'' ''extensions/greeter.py'' ''extensions'' None
           (Inr \<lparr>setup_hook = Some [Raise (PyException ''boom'')], teardown_hook = None\<rparr>)]
        (initial_world\<lparr>SETTINGS := [''enabled_extensions'' \<mapsto> JNames [''greeter'']]\<rparr>)) ''greeter''"
  by (simp add: ext_defs)

text \<open>
  Claim C5, amended. \<open>enable(name)\<close> raises \<open>RuntimeError('Extension not loaded')\<close> and
  changes nothing when the name is unknown or its module failed to load. When the \<open>setup\<close>
  hook of a loaded extension raises, \<open>enable\<close> raises that exception and leaves the
  \<open>enabled\<close> flag as it was: \<open>info\<close> is what it was before the call, so the extension is
  marked after the call exactly if it was marked before. Nothing is rolled back: the menu
  items the hook had registered before it raised stay registered.
\<close>

theorem enable_fails:
  "((loaded w name = None \<or> loaded w name = Some None) \<longrightarrow>
      enable name w = (Some (RuntimeError ''Extension not loaded''), w))
   \<and> (loaded w name = Some (Some m) \<and> setup_hook m = Some h \<and> raised h = Some e \<longrightarrow>
        fst (enable name w) = Some e
        \<and> info (snd (enable name w)) = info w
        \<and> is_enabled (snd (enable name w)) name = is_enabled w name
        \<and> menu_items (snd (enable name w)) name = Some (added_items h))"
proof (rule conjI)
  show "(loaded w name = None \<or> loaded w name = Some None) \<longrightarrow>
      enable name w = (Some (RuntimeError ''Extension not loaded''), w)"
    by (rule impI) (rule enable_not_loaded)
next
  show "loaded w name = Some (Some m) \<and> setup_hook m = Some h \<and> raised h = Some e \<longrightarrow>
        fst (enable name w) = Some e
        \<and> info (snd (enable name w)) = info w
        \<and> is_enabled (snd (enable name w)) name = is_enabled w name
        \<and> menu_items (snd (enable name w)) name = Some (added_items h)"
  proof (rule impI)
    assume a: "loaded w name = Some (Some m) \<and> setup_hook m = Some h \<and> raised h = Some e"
    then have 1: "loaded w name = Some (Some m)" and 2: "setup_hook m = Some h"
      and 3: "raised h = Some e" by simp_all
    show "fst (enable name w) = Some e
        \<and> info (snd (enable name w)) = info w
        \<and> is_enabled (snd (enable name w)) name = is_enabled w name
        \<and> menu_items (snd (enable name w)) name = Some (added_items h)"
      using enable_setup_raises [OF 1 2 3] by (simp add: is_enabled_def)
  qed
qed

theorem enable_fails_witness:
  "enable ''ghost'' initial_world = (Some (RuntimeError ''Extension not loaded''), initial_world)
   \<and> fst (enable ''greeter''
        (initial_world\<lparr>
           loaded := [''greeter'' \<mapsto> Some \<lparr>setup_hook = Some [AddCommand ''Say Hi'' (Callback 1 None),
                                                               Raise (PyException ''boom'')],
                                           teardown_hook = None\<rparr>],
           info := [(''greeter'', empty_info)]\<rparr>)) = Some (PyException ''boom'')
   \<and> \<not> is_enabled (snd (enable ''greeter''
        (initial_world\<lparr>
           loaded := [''greeter'' \<mapsto> Some \<lparr>setup_hook = Some [AddCommand ''Say Hi'' (Callback 1 None),
                                                               Raise (PyException ''boom'')],
                                           teardown_hook = None\<rparr>],
           info := [(''greeter'', empty_info)]\<rparr>))) ''greeter''
   \<and> menu_items (snd (enable ''greeter''
        (initial_world\<lparr>
           loaded := [''greeter'' \<mapsto> Some \<lparr>setup_hook = Some [AddCommand ''Say Hi'' (Callback 1 None),
                                                               Raise (PyException ''boom'')],
                                           teardown_hook = None\<rparr>],
           info := [(''greeter'', empty_info)]\<rparr>))) ''greeter''
       = Some [(''Say Hi'', Callback 1 None)]
   \<and> is_enabled (snd (enable ''greeter''
        (initial_world\<lparr>
           loaded := [''greeter'' \<mapsto> Some \<lparr>setup_hook = Some [Raise (PyException ''boom'')],
                                           teardown_hook = None\<rparr>],
           info := [(''greeter'', empty_info\<lparr>enabled := True\<rparr>)]\<rparr>))) ''greeter''"
  using
    enable_fails [where w = initial_world and name = "''ghost''"
      and m = "\<lparr>setup_hook = None, teardown_hook = None\<rparr>" and h = "[]" and e = BdbQuit]
    enable_fails [where w = "initial_world\<lparr>
           loaded := [''greeter'' \<mapsto> Some \<lparr>setup_hook = Some [AddCommand ''Say Hi'' (Callback 1 None),
                                                               Raise (PyException ''boom'')],
                                           teardown_hook = None\<rparr>],
           info := [(''greeter'', empty_info)]\<rparr>"
      and name = "''greeter''"
      and m = "\<lparr>setup_hook = Some [AddCommand ''Say Hi'' (Callback 1 None), Raise (PyException ''boom'')],
               teardown_hook = None\<rparr>"
      and h = "[AddCommand ''Say Hi'' (Callback 1 None), Raise (PyException ''boom'')]"
      and e = "PyException ''boom''"]
    enable_fails [where w = "initial_world\<lparr>
           loaded := [''greeter'' \<mapsto> Some \<lparr>setup_hook = Some [Raise (PyException ''boom'')],
                                           teardown_hook = None\<rparr>],
           info := [(''greeter'', empty_info\<lparr>enabled := True\<rparr>)]\<rparr>"
      and name = "''greeter''"
      and m = "\<lparr>setup_hook = Some [Raise (PyException ''boom'')], teardown_hook = None\<rparr>"
      and h = "[Raise (PyException ''boom'')]"
      and e = "PyException ''boom''"]
  by (simp add: initial_world_def is_enabled_def empty_info_def)

text \<open>
  Claim C8. For a loaded extension, \<open>disable\<close> followed by \<open>enable\<close> leaves the same
  registered menu items for it as one \<open>enable\<close> from any state in which the same module is
  loaded, the freshly loaded one included: those its \<open>setup\<close> hook registers.
\<close>

theorem restart_same_menu_items:
  assumes "loaded w name = Some (Some m)" "loaded w0 name = Some (Some m)"
  shows "menu_items (snd (enable name (snd (disable name w)))) name
         = menu_items (snd (enable name w0)) name"
proof -
  have "loaded (snd (disable name w)) name = Some (Some m)"
    using assms(1) by (simp add: disable_loaded)
  from enable_menu_items [OF this] enable_menu_items [OF assms(2)] show ?thesis by simp
qed

theorem restart_same_menu_items_witness:
  "menu_items (snd (enable ''greeter'' (snd (disable ''greeter'' (snd (enable ''greeter''
        (initial_world\<lparr>
           loaded := [''greeter'' \<mapsto> Some \<lparr>setup_hook = Some [AddCommand ''Say Hi'' (Callback 1 None)],
                                           teardown_hook = None\<rparr>],
           info := [(''greeter'', empty_info)]\<rparr>))))))) ''greeter''
     = Some [(''Say Hi'', Callback 1 None)]
   \<and> menu_items (snd (enable ''greeter''
        (initial_world\<lparr>
           loaded := [''greeter'' \<mapsto> Some \<lparr>setup_hook = Some [AddCommand ''Say Hi'' (Callback 1 None)],
                                           teardown_hook = None\<rparr>],
           info := [(''greeter'', empty_info)]\<rparr>))) ''greeter''
     = Some [(''Say Hi'', Callback 1 None)]"
  using restart_same_menu_items
    [where name = "''greeter''"
      and m = "\<lparr>setup_hook = Some [AddCommand ''Say Hi'' (Callback 1 None)], teardown_hook = None\<rparr>"
      and w = "snd (enable ''greeter''
        (initial_world\<lparr>
           loaded := [''greeter'' \<mapsto> Some \<lparr>setup_hook = Some [AddCommand ''Say Hi'' (Callback 1 None)],
                                           teardown_hook = None\<rparr>],
           info := [(''greeter'', empty_info)]\<rparr>))"
      and ?w0.0 = "initial_world\<lparr>
           loaded := [''greeter'' \<mapsto> Some \<lparr>setup_hook = Some [AddCommand ''Say Hi'' (Callback 1 None)],
                                           teardown_hook = None\<rparr>],
           info := [(''greeter'', empty_info)]\<rparr>"]
  by (simp add: ext_defs)

text \<open>
  Claim C2, as the specification states it: when the \<open>teardown\<close> hook of a loaded extension
  raises, \<open>disable\<close> still releases the extension's resources. It fails on an enabled
  extension with one registered resource: the hook is called inside the one \<open>try\<close> that
  holds all of \<open>disable\<close>, so the exception ends the call and no disposer is invoked.
\<close>

theorem disable_raising_teardown_counterexample:
  "disposed (snd (disable ''greeter''
     (initial_world\<lparr>
        loaded := [''greeter'' \<mapsto> Some \<lparr>setup_hook = None,
                                        teardown_hook = Some [Raise (PyException ''boom'')]\<rparr>],
        info := [(''greeter'', empty_info\<lparr>enabled := True\<rparr>)],
        resources := [''greeter'' \<mapsto> [Resource 1 True False False]]\<rparr>))) = []
   \<and> resources (snd (disable ''greeter''
     (initial_world\<lparr>
        loaded := [''greeter'' \<mapsto> Some \<lparr>setup_hook = None,
                                        teardown_hook = Some [Raise (PyException ''boom'')]\<rparr>],
        info := [(''greeter'', empty_info\<lparr>enabled := True\<rparr>)],
        resources := [''greeter'' \<mapsto> [Resource 1 True False False]]\<rparr>))) ''greeter'' = Some [Resource 1 True False False]
   \<and> is_enabled (snd (disable ''greeter''
     (initial_world\<lparr>
        loaded := [''greeter'' \<mapsto> Some \<lparr>setup_hook = None,
                                        teardown_hook = Some [Raise (PyException ''boom'')]\<rparr>],
        info := [(''greeter'', empty_info\<lparr>enabled := True\<rparr>)],
        resources := [''greeter'' \<mapsto> [Resource 1 True False False]]\<rparr>))) ''greeter''"
  by (simp add: ext_defs)

text \<open>
  Claim C2, amended. When the \<open>teardown\<close> hook of a loaded extension raises, \<open>disable\<close>
  swallows the exception and returns in the state the hook left: no disposer is invoked, and
  the enabled flag, the submenus and the settings in memory and on disk are what they were.
  When the hook is absent or returns, \<open>disable\<close> returns normally having invoked the
  disposer of every resource registered for the extension, emptied its resource list and its
  menu items, destroyed its submenu and marked it not enabled; and when the settings are
  writable and hold a list of names with the extension in it, the list without its first
  occurrence is what the settings hold, in memory and on disk.
\<close>

theorem disable_after_teardown:
  assumes "loaded w name = Some (Some m)"
  shows "(teardown_hook m = Some h \<and> raised h = Some e \<longrightarrow>
   disable name w = (None, snd (run_hook name h w))
   \<and> disposed (snd (disable name w)) = disposed w
   \<and> info (snd (disable name w)) = info w
   \<and> submenus (snd (disable name w)) = submenus w
   \<and> SETTINGS (snd (disable name w)) = SETTINGS w
   \<and> settings_file (snd (disable name w)) = settings_file w)
   \<and> ((case teardown_hook m of None \<Rightarrow> None | Some h' \<Rightarrow> raised h') = None \<longrightarrow>
   fst (disable name w) = None
   \<and> resources (snd (disable name w)) name = Some []
   \<and> (\<exists>rs'. disposed (snd (disable name w))
               = disposed w @ List.map_filter disposal_of (registered w name @ rs'))
   \<and> menu_items (snd (disable name w)) name = Some []
   \<and> name \<notin> submenus (snd (disable name w))
   \<and> \<not> is_enabled (snd (disable name w)) name
   \<and> (writable w \<and> SETTINGS w ''enabled_extensions'' = Some (JNames xs) \<and> name \<in> set xs \<longrightarrow>
        SETTINGS (snd (disable name w)) ''enabled_extensions'' = Some (JNames (remove1 name xs))
        \<and> settings_file (snd (disable name w)) = Some (SETTINGS (snd (disable name w)))))"
proof (rule conjI)
  show "teardown_hook m = Some h \<and> raised h = Some e \<longrightarrow>
   disable name w = (None, snd (run_hook name h w))
   \<and> disposed (snd (disable name w)) = disposed w
   \<and> info (snd (disable name w)) = info w
   \<and> submenus (snd (disable name w)) = submenus w
   \<and> SETTINGS (snd (disable name w)) = SETTINGS w
   \<and> settings_file (snd (disable name w)) = settings_file w"
  proof (rule impI)
    assume "teardown_hook m = Some h \<and> raised h = Some e"
    then have "teardown_hook m = Some h" "raised h = Some e" by simp_all
    then show "disable name w = (None, snd (run_hook name h w))
   \<and> disposed (snd (disable name w)) = disposed w
   \<and> info (snd (disable name w)) = info w
   \<and> submenus (snd (disable name w)) = submenus w
   \<and> SETTINGS (snd (disable name w)) = SETTINGS w
   \<and> settings_file (snd (disable name w)) = settings_file w"
      by (rule disable_teardown_raises_facts [OF assms])
  qed
next
  show "(case teardown_hook m of None \<Rightarrow> None | Some h' \<Rightarrow> raised h') = None \<longrightarrow>
   fst (disable name w) = None
   \<and> resources (snd (disable name w)) name = Some []
   \<and> (\<exists>rs'. disposed (snd (disable name w))
               = disposed w @ List.map_filter disposal_of (registered w name @ rs'))
   \<and> menu_items (snd (disable name w)) name = Some []
   \<and> name \<notin> submenus (snd (disable name w))
   \<and> \<not> is_enabled (snd (disable name w)) name
   \<and> (writable w \<and> SETTINGS w ''enabled_extensions'' = Some (JNames xs) \<and> name \<in> set xs \<longrightarrow>
        SETTINGS (snd (disable name w)) ''enabled_extensions'' = Some (JNames (remove1 name xs))
        \<and> settings_file (snd (disable name w)) = Some (SETTINGS (snd (disable name w))))"
  proof (rule impI)
    assume "(case teardown_hook m of None \<Rightarrow> None | Some h' \<Rightarrow> raised h') = None"
    then show "fst (disable name w) = None
   \<and> resources (snd (disable name w)) name = Some []
   \<and> (\<exists>rs'. disposed (snd (disable name w))
               = disposed w @ List.map_filter disposal_of (registered w name @ rs'))
   \<and> menu_items (snd (disable name w)) name = Some []
   \<and> name \<notin> submenus (snd (disable name w))
   \<and> \<not> is_enabled (snd (disable name w)) name
   \<and> (writable w \<and> SETTINGS w ''enabled_extensions'' = Some (JNames xs) \<and> name \<in> set xs \<longrightarrow>
        SETTINGS (snd (disable name w)) ''enabled_extensions'' = Some (JNames (remove1 name xs))
        \<and> settings_file (snd (disable name w)) = Some (SETTINGS (snd (disable name w))))"
      by (rule disable_teardown_returns_facts [OF assms])
  qed
qed

theorem disable_after_teardown_witness:
  "disposed (snd (disable ''greeter''
     (initial_world\<lparr>
        loaded := [''greeter'' \<mapsto> Some \<lparr>setup_hook = None,
                                        teardown_hook = Some [Raise (PyException ''boom'')]\<rparr>],
        info := [(''greeter'', empty_info\<lparr>enabled := True\<rparr>)],
        resources := [''greeter'' \<mapsto> [Resource 1 True False False]]\<rparr>))) = []
   \<and> is_enabled (snd (disable ''greeter''
     (initial_world\<lparr>
        loaded := [''greeter'' \<mapsto> Some \<lparr>setup_hook = None,
                                        teardown_hook = Some [Raise (PyException ''boom'')]\<rparr>],
        info := [(''greeter'', empty_info\<lparr>enabled := True\<rparr>)],
        resources := [''greeter'' \<mapsto> [Resource 1 True False False]]\<rparr>))) ''greeter''
   \<and> resources (snd (disable ''greeter''
     (initial_world\<lparr>
        SETTINGS := [''enabled_extensions'' \<mapsto> JNames [''greeter'']],
        loaded := [''greeter'' \<mapsto> Some \<lparr>setup_hook = None, teardown_hook = None\<rparr>],
        info := [(''greeter'', empty_info\<lparr>enabled := True\<rparr>)],
        submenus := {''greeter''},
        resources := [''greeter'' \<mapsto> [Resource 1 True False False]]\<rparr>))) ''greeter'' = Some []
   \<and> disposed (snd (disable ''greeter''
     (initial_world\<lparr>
        SETTINGS := [''enabled_extensions'' \<mapsto> JNames [''greeter'']],
        loaded := [''greeter'' \<mapsto> Some \<lparr>setup_hook = None, teardown_hook = None\<rparr>],
        info := [(''greeter'', empty_info\<lparr>enabled := True\<rparr>)],
        submenus := {''greeter''},
        resources := [''greeter'' \<mapsto> [Resource 1 True False False]]\<rparr>))) = [Destroyed (Resource 1 True False False)]
   \<and> \<not> is_enabled (snd (disable ''greeter''
     (initial_world\<lparr>
        SETTINGS := [''enabled_extensions'' \<mapsto> JNames [''greeter'']],
        loaded := [''greeter'' \<mapsto> Some \<lparr>setup_hook = None, teardown_hook = None\<rparr>],
        info := [(''greeter'', empty_info\<lparr>enabled := True\<rparr>)],
        submenus := {''greeter''},
        resources := [''greeter'' \<mapsto> [Resource 1 True False False]]\<rparr>))) ''greeter''
   \<and> SETTINGS (snd (disable ''greeter''
     (initial_world\<lparr>
        SETTINGS := [''enabled_extensions'' \<mapsto> JNames [''greeter'']],
        loaded := [''greeter'' \<mapsto> Some \<lparr>setup_hook = None, teardown_hook = None\<rparr>],
        info := [(''greeter'', empty_info\<lparr>enabled := True\<rparr>)],
        submenus := {''greeter''},
        resources := [''greeter'' \<mapsto> [Resource 1 True False False]]\<rparr>))) ''enabled_extensions'' = Some (JNames [])"
  using
    disable_after_teardown [where name = "''greeter''"
      and m = "\<lparr>setup_hook = None, teardown_hook = Some [Raise (PyException ''boom'')]\<rparr>"
      and h = "[Raise (PyException ''boom'')]" and e = "PyException ''boom''" and xs = "[]"
      and w = "initial_world\<lparr>
        loaded := [''greeter'' \<mapsto> Some \<lparr>setup_hook = None,
                                        teardown_hook = Some [Raise (PyException ''boom'')]\<rparr>],
        info := [(''greeter'', empty_info\<lparr>enabled := True\<rparr>)],
        resources := [''greeter'' \<mapsto> [Resource 1 True False False]]\<rparr>"]
    disable_after_teardown [where name = "''greeter''"
      and m = "\<lparr>setup_hook = None, teardown_hook = None\<rparr>"
      and h = "[]" and e = BdbQuit and xs = "[''greeter'']"
      and w = "initial_world\<lparr>
        SETTINGS := [''enabled_extensions'' \<mapsto> JNames [''greeter'']],
        loaded := [''greeter'' \<mapsto> Some \<lparr>setup_hook = None, teardown_hook = None\<rparr>],
        info := [(''greeter'', empty_info\<lparr>enabled := True\<rparr>)],
        submenus := {''greeter''},
        resources := [''greeter'' \<mapsto> [Resource 1 True False False]]\<rparr>"]
  by (simp add: ext_defs)

text \<open>
  Claim C4, as the specification states it: no resource registered before a \<open>load_all()\<close>
  remains un-disposed when it returns. It fails on two calls in a row with one extension,
  enabled in the settings, whose \<open>setup\<close> registers a resource and whose \<open>teardown\<close>
  raises: the resource is registered after the first call and the second call invokes no
  disposer before it empties the registry.
\<close>

theorem load_all_counterexample:
  "registered (load_all
       [Scanned ''greeter'' ''extensions/greeter.py'' ''extensions'' None
          (Inr \<lparr>setup_hook = Some [RegisterResource (Resource 1 True False False)],
                teardown_hook = Some [Raise (PyException ''boom'')]\<rparr>)]
       (initial_world\<lparr>SETTINGS := [''enabled_extensions'' \<mapsto> JNames [''greeter'']]\<rparr>)) ''greeter''
     = [Resource 1 True False False]
   \<and> disposed (load_all
       [Scanned ''greeter'' ''extensions/greeter.py'' ''extensions'' None
          (Inr \<lparr>setup_hook = Some [RegisterResource (Resource 1 True False False)],
                teardown_hook = Some [Raise (PyException ''boom'')]\<rparr>)]
       (load_all
       [Scanned ''greeter'' ''extensions/greeter.py'' ''extensions'' None
          (Inr \<lparr>setup_hook = Some [RegisterResource (Resource 1 True False False)],
                teardown_hook = Some [Raise (PyException ''boom'')]\<rparr>)]
       (initial_world\<lparr>SETTINGS := [''enabled_extensions'' \<mapsto> JNames [''greeter'']]\<rparr>))) = []"
  by (simp add: ext_defs)

text \<open>
  Claim C4, amended. For every \<open>load_all()\<close> call and every extension that is loaded and
  marked enabled when the call starts and whose \<open>teardown\<close> hook is absent or returns, each
  resource registered for that extension before the call that has a dispose capability (a
  \<open>destroy\<close> method, or being callable) has it invoked during the call: the invocation is
  among those \<open>load_all()\<close> adds to the record.
\<close>

theorem load_all_disposes_enabled:
  assumes "is_enabled w name" "loaded w name = Some (Some m)"
    "(case teardown_hook m of None \<Rightarrow> None | Some h \<Rightarrow> raised h) = None"
    "r \<in> set (registered w name)" "disposal_of r = Some d"
  shows "\<exists>ds. disposed (load_all files w) = disposed w @ ds \<and> d \<in> set ds"
  using disable_enabled_disposes [OF assms(3,5) is_enabled_key [OF assms(1)] assms(1,2,4)]
  by (simp add: load_all_disposed)

theorem load_all_disposes_enabled_witness:
  "disposed (load_all
       [Scanned ''greeter'' ''extensions/greeter.py'' ''extensions'' None
          (Inr \<lparr>setup_hook = None, teardown_hook = None\<rparr>)]
       (initial_world\<lparr>
        SETTINGS := [''enabled_extensions'' \<mapsto> JNames [''greeter'']],
        loaded := [''greeter'' \<mapsto> Some \<lparr>setup_hook = None, teardown_hook = None\<rparr>],
        info := [(''greeter'', empty_info\<lparr>enabled := True\<rparr>)],
        submenus := {''greeter''},
        resources := [''greeter'' \<mapsto> [Resource 1 True False False]]\<rparr>))
    = [Destroyed (Resource 1 True False False)]"
  using load_all_disposes_enabled
    [where name = "''greeter''" and m = "\<lparr>setup_hook = None, teardown_hook = None\<rparr>"
      and r = "Resource 1 True False False" and d = "Destroyed (Resource 1 True False False)"
      and files = "[Scanned ''greeter'' ''extensions/greeter.py'' ''extensions'' None
          (Inr \<lparr>setup_hook = None, teardown_hook = None\<rparr>)]"
      and w = "initial_world\<lparr>
        SETTINGS := [''enabled_extensions'' \<mapsto> JNames [''greeter'']],
        loaded := [''greeter'' \<mapsto> Some \<lparr>setup_hook = None, teardown_hook = None\<rparr>],
        info := [(''greeter'', empty_info\<lparr>enabled := True\<rparr>)],
        submenus := {''greeter''},
        resources := [''greeter'' \<mapsto> [Resource 1 True False False]]\<rparr>"]
  by (simp add: ext_defs)

section \<open>Properties of the debugger\<close>

lemma leave_run_not_quit: "leave_run th t = (Done x, t') \<Longrightarrow> x \<noteq> Some (Exc BdbQuit)"
  by (auto simp: leave_run_def split: if_splits)

lemma trace_run_not_quit: "trace_run code t ds = (Done x, t') \<Longrightarrow> x \<noteq> Some (Exc BdbQuit)"
proof (induction code arbitrary: t ds)
  case (Ends res)
  then show ?case by (auto split: outcome.splits dest: leave_run_not_quit)
next
  case (AtLine f n k)
  show ?case
  proof (cases "user_line f n t ds")
    case (Parked t1)
    with AtLine.prems show ?thesis by simp
  next
    case (Raised e t1)
    with AtLine.prems show ?thesis by (auto dest: leave_run_not_quit)
  next
    case (Resumed r t1 ds1)
    with AtLine.prems have "trace_run (k r) t1 ds1 = (Done x, t')" by simp
    then show ?thesis by (rule AtLine.IH [OF rangeI])
  qed
qed

lemma try_body_not_quit: "try_body src t ds = (Done x, t') \<Longrightarrow> x \<noteq> Some (Exc BdbQuit)"
  by (auto simp: try_body_def compile_source_def bdb_run_def split: sum.splits source.splits
      dest: trace_run_not_quit)




lemma user_line_cases:
  "user_line f n t ds = Parked t' \<Longrightarrow> ds = []"
  by (auto simp: user_line_def Let_def split: if_splits list.splits action.splits)





lemma walk_height: "height (walk f bp stepping ns res) \<le> length ns"
proof (induction ns arbitrary: stepping)
  case Nil
  then show ?case by simp
next
  case (Cons n ns)
  have "height (walk f bp s ns res) \<le> length ns" for s by (rule Cons.IH)
  then show ?case by (auto intro: le_SucI)
qed

lemma walk_returns_only: "returns_only (walk f bp stepping ns Returns)"
  by (induction ns arbitrary: stepping) auto


text \<open>
  Claim C3, as the specification states it: the stream of a session whose source raises
  holds an Errored message and never a Finished message. It fails on the one-line source
  \<open>raise ValueError\<close> stepped once, where the \<open>finally\<close> clause of \<open>_thread_runner\<close>
  puts \<open>('finished',)\<close> after the error, and on the one-line source \<open>raise SystemExit\<close>,
  which \<open>except Exception\<close> does not catch: the stream holds no Errored message.
\<close>

theorem errored_session_counterexample:
  "MFinished \<in> set (snd (thread_runner
     (Program (straight_line ''<string>'' [1] (Raises (Exc (PyException ''ValueError''))))) [] [] [Step]))
   \<and> thread_runner
     (Program (straight_line ''<string>'' [1] (Raises (BaseExc ''SystemExit'')))) [] [] [Step]
     = (True, [MStopped ''<string>'' 1, MFinished])"
  by (simp add: thread_runner_def try_body_def compile_source_def bdb_run_def straight_line_def
      user_line_def leave_run_def next_mode_def)

text \<open>
  Claim C3, amended. When the body of the worker's \<open>try\<close> (compiling the source and
  running it under the tracer) raises an instance of \<open>Exception\<close>, the worker ends and the
  stream it leaves is what the tracer had put, then an Errored message whose trace text is
  not empty, then a Finished message, which is the last one. When it raises an exception that
  is not an instance of \<open>Exception\<close>, the worker puts no Errored message: the stream is
  what the tracer had put, then Finished.
\<close>

theorem errored_session_stream:
  "(try_body src \<lparr>gui_q = q, next_action = None, stop_requested = False, breaks = bp\<rparr> ds
      = (Done (Some (Exc e)), t) \<longrightarrow>
      thread_runner src bp q ds = (True, gui_q t @ [MError (format_exc e), MFinished])
      \<and> format_exc e \<noteq> [])
   \<and> (try_body src \<lparr>gui_q = q, next_action = None, stop_requested = False, breaks = bp\<rparr> ds
      = (Done (Some (BaseExc n)), t) \<longrightarrow>
      thread_runner src bp q ds = (True, gui_q t @ [MFinished]))"
proof (rule conjI)
  show "try_body src \<lparr>gui_q = q, next_action = None, stop_requested = False, breaks = bp\<rparr> ds
      = (Done (Some (Exc e)), t) \<longrightarrow>
      thread_runner src bp q ds = (True, gui_q t @ [MError (format_exc e), MFinished])
      \<and> format_exc e \<noteq> []"
  proof (rule impI)
    assume a: "try_body src \<lparr>gui_q = q, next_action = None, stop_requested = False, breaks = bp\<rparr> ds
      = (Done (Some (Exc e)), t)"
    from try_body_not_quit [OF a] have "e \<noteq> BdbQuit" by simp
    with a show "thread_runner src bp q ds = (True, gui_q t @ [MError (format_exc e), MFinished])
      \<and> format_exc e \<noteq> []"
      by (simp add: thread_runner_def format_exc_def)
  qed
next
  show "try_body src \<lparr>gui_q = q, next_action = None, stop_requested = False, breaks = bp\<rparr> ds
      = (Done (Some (BaseExc n)), t) \<longrightarrow>
      thread_runner src bp q ds = (True, gui_q t @ [MFinished])"
    by (simp add: thread_runner_def)
qed

theorem errored_session_stream_witness:
  "thread_runner
     (Program (straight_line ''<string>'' [1] (Raises (Exc (PyException ''ValueError''))))) [] [] [Step]
   = (True, [MStopped ''<string>'' 1, MError (format_exc (PyException ''ValueError'')), MFinished])
   \<and> format_exc (PyException ''ValueError'') \<noteq> []
   \<and> thread_runner
     (Program (straight_line ''<string>'' [1] (Raises (BaseExc ''KeyboardInterrupt'')))) [] [] [Step]
   = (True, [MStopped ''<string>'' 1, MFinished])"
  using
    errored_session_stream [where src = "Program (straight_line ''<string>'' [1] (Raises (Exc (PyException ''ValueError''))))"
      and bp = "[]" and q = "[]" and ds = "[Step]" and e = "PyException ''ValueError''"
      and n = "''KeyboardInterrupt''"
      and t = "\<lparr>gui_q = [MStopped ''<string>'' 1], next_action = Some Step, stop_requested = False,
                breaks = []\<rparr>"]
    errored_session_stream [where src = "Program (straight_line ''<string>'' [1] (Raises (BaseExc ''KeyboardInterrupt'')))"
      and bp = "[]" and q = "[]" and ds = "[Step]" and e = "PyException ''ValueError''"
      and n = "''KeyboardInterrupt''"
      and t = "\<lparr>gui_q = [MStopped ''<string>'' 1], next_action = Some Step, stop_requested = False,
                breaks = []\<rparr>"]
  by (simp add: try_body_def compile_source_def bdb_run_def straight_line_def
      user_line_def leave_run_def next_mode_def)

text \<open>
  Claim C7 at its failing input: a session stopped at a line is given the directive
  \<open>quit\<close>. \<open>user_line\<close> raises \<open>BdbQuit\<close>, \<open>Bdb.run\<close> catches it, and the worker's own
  \<open>except bdb.BdbQuit\<close> clause is not reached: the stream ends with Finished and holds
  neither an Exited nor an Errored message for this session.
\<close>

theorem quit_posts_finished_only:
  "code bp = AtLine fname lineno k \<Longrightarrow>
   thread_runner (Program code) bp q (Quit # ds) = (True, q @ [MStopped fname lineno, MFinished])"
  by (simp add: thread_runner_def try_body_def compile_source_def bdb_run_def user_line_def leave_run_def)

theorem quit_posts_finished_only_witness:
  "thread_runner (Program (straight_line ''<string>'' [1] Returns)) [] [] [Quit]
   = (True, [MStopped ''<string>'' 1, MFinished])"
  using quit_posts_finished_only [of "straight_line ''<string>'' [1] Returns" "[]" "''<string>''" 1
      "\<lambda>r. Ends Returns" "[]" "[]"]
  by (simp add: straight_line_def)




end
